theory Spec2Isabelle
  imports Complex_Main "HOL-Library.Sublist" "HOL-Library.Code_Target_Numeral"
begin

section \<open>JavaScript values\<close>

text \<open>
  The two exchange wrappers (\<^verbatim>\<open>src/unnamed/part_000\<close>, the Poloniex wrapper, and
  \<^verbatim>\<open>src/exchange/wrappers/binance.js\<close>) receive whatever the exchange client hands to
  their callbacks: an error value and a body, both untyped. They are modelled as values of
  \<open>jsval\<close>. Numbers are IEEE 754 doubles: \<open>Fin q\<close> is the finite double whose value is the
  rational \<open>q\<close>, beside \<open>NaN\<close> and the two infinities, and every operation rounds its exact
  result to the nearest double (\<open>fl\<close> below). Negative zero is identified with zero: the two
  differ only as divisors, and no divisor of the wrappers can be a negative zero (they are
  sums that start from \<^verbatim>\<open>+0\<close> and positive powers of ten). \<open>JError m\<close> is an \<^verbatim>\<open>Error\<close> object
  with message \<open>m\<close>. An object is the list of its own properties, first entry of a key
  winning; functions and prototype properties are not values of the model. Strings are
  byte strings.
\<close>

datatype jsnum = Fin rat | NaN | PosInf | NegInf

datatype jsval =
    JUndefined
  | JNull
  | JBool bool
  | JNum jsnum
  | JStr string
  | JArr "jsval list"
  | JObj "(string \<times> jsval) list"
  | JError string

text \<open>Truthiness, as \<^verbatim>\<open>if(v)\<close> and \<^verbatim>\<open>!v\<close> read it.\<close>

fun truthy :: "jsval \<Rightarrow> bool" where
  "truthy JUndefined = False"
| "truthy JNull = False"
| "truthy (JBool b) = b"
| "truthy (JNum (Fin q)) = (q \<noteq> 0)"
| "truthy (JNum NaN) = False"
| "truthy (JNum PosInf) = True"
| "truthy (JNum NegInf) = True"
| "truthy (JStr s) = (s \<noteq> [])"
| "truthy (JArr xs) = True"
| "truthy (JObj kvs) = True"
| "truthy (JError m) = True"

definition nullish :: "jsval \<Rightarrow> bool" where
  "nullish v = (v = JUndefined \<or> v = JNull)"

subsection \<open>Rounding to a double\<close>

text \<open>The integer nearest to \<open>x\<close>, the even one of the two when \<open>x\<close> lies half way.\<close>

definition round_half_even :: "rat \<Rightarrow> int" where
  "round_half_even x =
     (let n = \<lfloor>x\<rfloor>; d = x - of_int n in
      if d < 1 / 2 then n else if 1 / 2 < d then n + 1 else if even n then n else n + 1)"

text \<open>
  The exponent of the binade of \<open>a > 0\<close>: the \<open>e\<close> with \<open>2\<^sup>e \<le> a < 2\<^sup>e\<^sup>+\<^sup>1\<close>, not above 1024 and
  not below \<open>-1022\<close>, where the subnormal numbers begin.
\<close>

fun binade_up :: "nat \<Rightarrow> rat \<Rightarrow> int \<Rightarrow> int" where
  "binade_up 0 a e = e"
| "binade_up (Suc k) a e = (if 2 \<le> a then binade_up k (a / 2) (e + 1) else e)"

fun binade_down :: "nat \<Rightarrow> rat \<Rightarrow> int \<Rightarrow> int" where
  "binade_down 0 a e = e"
| "binade_down (Suc k) a e = (if a < 1 then binade_down k (a * 2) (e - 1) else e)"

definition binade :: "rat \<Rightarrow> int" where
  "binade a = (if 1 \<le> a then binade_up 1024 a 0 else binade_down 1022 a 0)"

definition pow2 :: "int \<Rightarrow> rat" where
  "pow2 e = (if 0 \<le> e then 2 ^ nat e else 1 / 2 ^ nat (- e))"

definition signed_inf :: "bool \<Rightarrow> jsnum" where
  "signed_inf pos = (if pos then PosInf else NegInf)"

text \<open>
  The double nearest to the rational \<open>q\<close> (round to nearest, ties to even): a multiple of
  \<open>2\<^sup>e\<^sup>-\<^sup>5\<^sup>2\<close> in the binade \<open>e\<close> of \<open>q\<close>, an infinity from \<open>2\<^sup>1\<^sup>0\<^sup>2\<^sup>4\<close> on.
\<close>

definition fl :: "rat \<Rightarrow> jsnum" where
  "fl q =
     (if q = 0 then Fin 0
      else
        (let a = \<bar>q\<bar>; u = pow2 (binade a - 52);
             r = of_int (round_half_even (a / u)) * u
         in if pow2 1024 \<le> r then signed_inf (0 < q)
            else Fin (if 0 < q then r else - r)))"

subsection \<open>Numbers to strings and back\<close>

definition digit_char :: "nat \<Rightarrow> char" where
  "digit_char d = ''0123456789'' ! d"

fun show_nat :: "nat \<Rightarrow> string" where
  "show_nat n =
     (if n < 10 then [digit_char n] else show_nat (n div 10) @ [digit_char (n mod 10)])"

declare show_nat.simps [simp del]

definition pow10 :: "int \<Rightarrow> rat" where
  "pow10 e = (if 0 \<le> e then 10 ^ nat e else 1 / 10 ^ nat (- e))"

text \<open>The decimal exponent of \<open>a > 0\<close>: the \<open>n\<close> with \<open>10\<^sup>n \<le> a < 10\<^sup>n\<^sup>+\<^sup>1\<close>, for \<open>a\<close> a double.\<close>

fun decade_up :: "nat \<Rightarrow> rat \<Rightarrow> int \<Rightarrow> int" where
  "decade_up 0 a n = n"
| "decade_up (Suc k) a n = (if 10 \<le> a then decade_up k (a / 10) (n + 1) else n)"

fun decade_down :: "nat \<Rightarrow> rat \<Rightarrow> int \<Rightarrow> int" where
  "decade_down 0 a n = n"
| "decade_down (Suc k) a n = (if a < 1 then decade_down k (a * 10) (n - 1) else n)"

definition decade :: "rat \<Rightarrow> int" where
  "decade a = (if 1 \<le> a then decade_up 309 a 0 else decade_down 324 a 0)"

text \<open>
  \<^verbatim>\<open>Number.prototype.toString\<close> looks for integers \<open>n\<close>, \<open>k\<close> and \<open>s\<close> with \<open>k\<close> digits in
  \<open>s\<close>, such that \<open>s \<times> 10\<^sup>n\<^sup>-\<^sup>k\<close> reads back as the number \<open>x\<close>, with \<open>k\<close> as small as possible and
  then \<open>s \<times> 10\<^sup>n\<^sup>-\<^sup>k\<close> as close to \<open>x\<close> as possible (the even \<open>s\<close> of two equally close). With
  \<open>k\<close> digits only the two neighbours of \<open>x\<close> can be the closest; the upper one may be a
  power of ten, which has the next \<open>n\<close>.
\<close>

definition digits_candidate :: "rat \<Rightarrow> nat \<Rightarrow> (nat \<times> int) option" where
  "digits_candidate x k =
     (let n = decade x + 1; scale = pow10 (n - int k);
          lo = \<lfloor>x / scale\<rfloor>; hi = lo + 1;
          ok_lo = (fl (of_int lo * scale) = Fin x);
          ok_hi = (fl (of_int hi * scale) = Fin x);
          d_lo = x - of_int lo * scale; d_hi = of_int hi * scale - x;
          upper = (if hi = 10 ^ k then (10 ^ (k - 1), n + 1) else (nat hi, n))
      in if ok_lo \<and> ok_hi
         then (if d_lo < d_hi \<or> (d_lo = d_hi \<and> even lo) then Some (nat lo, n) else Some upper)
         else if ok_lo then Some (nat lo, n)
         else if ok_hi then Some upper
         else None)"

text \<open>Seventeen digits tell any two doubles apart, so the search ends there at the latest.\<close>

fun shortest_digits :: "nat \<Rightarrow> rat \<Rightarrow> nat \<Rightarrow> nat \<times> int" where
  "shortest_digits 0 x k = (nat \<lfloor>x / pow10 (decade x + 1 - int k)\<rfloor>, decade x + 1)"
| "shortest_digits (Suc fuel) x k =
     (case digits_candidate x k of
        Some sn \<Rightarrow> sn
      | None \<Rightarrow> shortest_digits fuel x (k + 1))"

text \<open>The notation for the digits \<open>ds\<close> of \<open>s\<close> and the exponent \<open>n\<close>.\<close>

definition show_digits :: "string \<Rightarrow> int \<Rightarrow> string" where
  "show_digits ds n =
     (let k = int (length ds) in
      if k \<le> n \<and> n \<le> 21 then ds @ replicate (nat (n - k)) (CHR ''0'')
      else if 0 < n \<and> n \<le> 21 then take (nat n) ds @ ''.'' @ drop (nat n) ds
      else if - 6 < n \<and> n \<le> 0 then ''0.'' @ replicate (nat (- n)) (CHR ''0'') @ ds
      else
        (let es = (if 0 \<le> n - 1 then ''+'' else ''-'') @ show_nat (nat \<bar>n - 1\<bar>)
         in if k = 1 then ds @ ''e'' @ es else take 1 ds @ ''.'' @ drop 1 ds @ ''e'' @ es))"

definition show_positive :: "rat \<Rightarrow> string" where
  "show_positive x = (case shortest_digits 17 x 1 of (s, n) \<Rightarrow> show_digits (show_nat s) n)"

text \<open>
  The string of a finite number. An integer below \<open>2\<^sup>5\<^sup>3\<close> is a double and prints as its
  digits (no shorter digit string reads back as it, the integers around it being doubles
  too); any other value prints as the double nearest to it.
\<close>

definition show_rat :: "rat \<Rightarrow> string" where
  "show_rat q =
     (if of_int \<lfloor>q\<rfloor> = q \<and> \<bar>q\<bar> < 2 ^ 53
      then (if q < 0 then ''-'' else []) @ show_nat (nat \<lfloor>\<bar>q\<bar>\<rfloor>)
      else (case fl q of
              Fin x \<Rightarrow> if x = 0 then ''0''
                       else (if x < 0 then ''-'' else []) @ show_positive \<bar>x\<bar>
            | PosInf \<Rightarrow> ''Infinity''
            | NegInf \<Rightarrow> ''-Infinity''
            | NaN \<Rightarrow> ''NaN''))"

text \<open>\<^verbatim>\<open>Number.prototype.toString\<close>, radix 10.\<close>

fun NumberToString :: "jsnum \<Rightarrow> string" where
  "NumberToString (Fin q) = show_rat q"
| "NumberToString NaN = ''NaN''"
| "NumberToString PosInf = ''Infinity''"
| "NumberToString NegInf = ''-Infinity''"

fun intercalate :: "string \<Rightarrow> string list \<Rightarrow> string" where
  "intercalate sep [] = []"
| "intercalate sep [x] = x"
| "intercalate sep (x # y # ys) = x @ sep @ intercalate sep (y # ys)"

text \<open>
  \<^verbatim>\<open>String(v)\<close>, the conversion \<^verbatim>\<open>new Error(v)\<close> applies to its argument. An array joins
  its elements with commas, \<^verbatim>\<open>null\<close> and \<^verbatim>\<open>undefined\<close> elements printing as nothing.
\<close>

fun ToString :: "jsval \<Rightarrow> string" where
  "ToString JUndefined = ''undefined''"
| "ToString JNull = ''null''"
| "ToString (JBool b) = (if b then ''true'' else ''false'')"
| "ToString (JNum n) = NumberToString n"
| "ToString (JStr s) = s"
| "ToString (JArr xs) =
     intercalate '','' (map (\<lambda>x. if x = JUndefined \<or> x = JNull then [] else ToString x) xs)"
| "ToString (JObj kvs) = ''[object Object]''"
| "ToString (JError m) = (if m = [] then ''Error'' else ''Error: '' @ m)"

definition is_digit :: "char \<Rightarrow> bool" where
  "is_digit c = (48 \<le> (of_char c :: nat) \<and> (of_char c :: nat) \<le> 57)"

definition digit_val :: "char \<Rightarrow> nat" where
  "digit_val c = of_char c - 48"

definition digits_val :: "string \<Rightarrow> nat" where
  "digits_val s = foldl (\<lambda>a c. 10 * a + digit_val c) 0 s"

definition is_space :: "char \<Rightarrow> bool" where
  "is_space c = ((of_char c :: nat) \<in> {9, 10, 11, 12, 13, 32})"

text \<open>
  The exponent part \<^verbatim>\<open>e[+-]digits\<close> at the head of \<open>s\<close>, if there is a complete one: its
  value and the rest of the string.
\<close>

definition scan_exponent :: "string \<Rightarrow> (int \<times> string) option" where
  "scan_exponent s =
     (case s of
        [] \<Rightarrow> None
      | c # t \<Rightarrow>
          if c = CHR ''e'' \<or> c = CHR ''E'' then
            (let (neg, u) = (case t of
                               [] \<Rightarrow> (False, t)
                             | d # t' \<Rightarrow> if d = CHR ''-'' then (True, t')
                                         else if d = CHR ''+'' then (False, t') else (False, t));
                 ds = takeWhile is_digit u
             in if ds = [] then None
                else Some ((if neg then - int (digits_val ds) else int (digits_val ds)),
                           dropWhile is_digit u))
          else None)"

text \<open>
  The longest prefix of \<open>s\<close> that is an unsigned decimal literal (\<^verbatim>\<open>Infinity\<close>,
  \<^verbatim>\<open>12\<close>, \<^verbatim>\<open>12.\<close>, \<^verbatim>\<open>12.5\<close>, \<^verbatim>\<open>.5\<close>, each with an optional exponent), with the rest. Its
  value is the double nearest to the decimal number written.
\<close>

definition scan_unsigned :: "string \<Rightarrow> (jsnum \<times> string) option" where
  "scan_unsigned s =
     (if prefix ''Infinity'' s then Some (PosInf, drop 8 s)
      else
        (let ip = takeWhile is_digit s; r1 = dropWhile is_digit s;
             (fp, r2) = (case r1 of
                           [] \<Rightarrow> ([], r1)
                         | c # t \<Rightarrow> if c = CHR ''.'' \<and> (ip \<noteq> [] \<or> takeWhile is_digit t \<noteq> [])
                                     then (takeWhile is_digit t, dropWhile is_digit t)
                                     else ([], r1))
         in if ip = [] \<and> fp = [] then None
            else
              (let m = of_nat (digits_val (ip @ fp)) / 10 ^ length fp
               in case scan_exponent r2 of
                    None \<Rightarrow> Some (fl m, r2)
                  | Some (e, r3) \<Rightarrow> Some (fl (m * pow10 e), r3))))"

fun negate :: "jsnum \<Rightarrow> jsnum" where
  "negate (Fin q) = Fin (- q)"
| "negate NaN = NaN"
| "negate PosInf = NegInf"
| "negate NegInf = PosInf"

definition scan_decimal :: "string \<Rightarrow> (jsnum \<times> string) option" where
  "scan_decimal s =
     (case s of
        [] \<Rightarrow> None
      | c # t \<Rightarrow>
          if c = CHR ''-'' then map_option (\<lambda>(n, r). (negate n, r)) (scan_unsigned t)
          else if c = CHR ''+'' then scan_unsigned t
          else scan_unsigned s)"

text \<open>\<^verbatim>\<open>parseFloat\<close> on a string: leading white space is skipped, trailing text ignored.\<close>

definition parseFloat_string :: "string \<Rightarrow> jsnum" where
  "parseFloat_string s =
     (case scan_decimal (dropWhile is_space s) of None \<Rightarrow> NaN | Some (n, r) \<Rightarrow> n)"

definition parseFloat :: "jsval \<Rightarrow> jsnum" where
  "parseFloat v = parseFloat_string (ToString v)"

definition radix_digit :: "char \<Rightarrow> nat option" where
  "radix_digit c =
     (let n = (of_char c :: nat) in
      if 48 \<le> n \<and> n \<le> 57 then Some (n - 48)
      else if 97 \<le> n \<and> n \<le> 102 then Some (n - 87)
      else if 65 \<le> n \<and> n \<le> 70 then Some (n - 55)
      else None)"

definition radix_val :: "nat \<Rightarrow> string \<Rightarrow> jsnum" where
  "radix_val b s =
     (if s \<noteq> [] \<and> (\<forall>c \<in> set s. case radix_digit c of None \<Rightarrow> False | Some d \<Rightarrow> d < b)
      then fl (of_nat (foldl (\<lambda>a c. b * a + the (radix_digit c)) 0 s))
      else NaN)"

definition trim :: "string \<Rightarrow> string" where
  "trim s = rev (dropWhile is_space (rev (dropWhile is_space s)))"

text \<open>
  \<^verbatim>\<open>Number(s)\<close> on a string: the whole trimmed string must be a numeric literal; the empty
  string is 0.
\<close>

definition StringToNumber :: "string \<Rightarrow> jsnum" where
  "StringToNumber s =
     (let t = trim s in
      if t = [] then Fin 0
      else if prefix ''0x'' t \<or> prefix ''0X'' t then radix_val 16 (drop 2 t)
      else if prefix ''0o'' t \<or> prefix ''0O'' t then radix_val 8 (drop 2 t)
      else if prefix ''0b'' t \<or> prefix ''0B'' t then radix_val 2 (drop 2 t)
      else (case scan_decimal t of
              Some (n, []) \<Rightarrow> n
            | _ \<Rightarrow> NaN))"

text \<open>\<^verbatim>\<open>Number(v)\<close>, which unary plus and the arithmetic operators apply to their operands.\<close>

fun ToNumber :: "jsval \<Rightarrow> jsnum" where
  "ToNumber JUndefined = NaN"
| "ToNumber JNull = Fin 0"
| "ToNumber (JBool b) = (if b then Fin 1 else Fin 0)"
| "ToNumber (JNum n) = n"
| "ToNumber (JStr s) = StringToNumber s"
| "ToNumber (JArr xs) = StringToNumber (ToString (JArr xs))"
| "ToNumber (JObj kvs) = NaN"
| "ToNumber (JError m) = NaN"

subsection \<open>Arithmetic\<close>

text \<open>Each operation on two finite numbers is the exact one, rounded.\<close>

fun js_add :: "jsnum \<Rightarrow> jsnum \<Rightarrow> jsnum" where
  "js_add (Fin a) (Fin b) = fl (a + b)"
| "js_add NaN y = NaN"
| "js_add x NaN = NaN"
| "js_add PosInf NegInf = NaN"
| "js_add NegInf PosInf = NaN"
| "js_add PosInf y = PosInf"
| "js_add NegInf y = NegInf"
| "js_add x PosInf = PosInf"
| "js_add x NegInf = NegInf"

definition js_sub :: "jsnum \<Rightarrow> jsnum \<Rightarrow> jsnum" where
  "js_sub x y = js_add x (negate y)"

fun js_mul :: "jsnum \<Rightarrow> jsnum \<Rightarrow> jsnum" where
  "js_mul (Fin a) (Fin b) = fl (a * b)"
| "js_mul NaN y = NaN"
| "js_mul x NaN = NaN"
| "js_mul (Fin a) PosInf = (if a = 0 then NaN else signed_inf (0 < a))"
| "js_mul (Fin a) NegInf = (if a = 0 then NaN else signed_inf (a < 0))"
| "js_mul PosInf (Fin b) = (if b = 0 then NaN else signed_inf (0 < b))"
| "js_mul NegInf (Fin b) = (if b = 0 then NaN else signed_inf (b < 0))"
| "js_mul PosInf PosInf = PosInf"
| "js_mul NegInf NegInf = PosInf"
| "js_mul PosInf NegInf = NegInf"
| "js_mul NegInf PosInf = NegInf"

text \<open>Division: \<^verbatim>\<open>0/0\<close> is \<^verbatim>\<open>NaN\<close>, any other division by zero an infinity (zero read as +0).\<close>

fun js_div :: "jsnum \<Rightarrow> jsnum \<Rightarrow> jsnum" where
  "js_div (Fin a) (Fin b) =
     (if b = 0 then (if a = 0 then NaN else signed_inf (0 < a)) else fl (a / b))"
| "js_div NaN y = NaN"
| "js_div x NaN = NaN"
| "js_div (Fin a) PosInf = Fin 0"
| "js_div (Fin a) NegInf = Fin 0"
| "js_div PosInf (Fin b) = signed_inf (0 \<le> b)"
| "js_div NegInf (Fin b) = signed_inf (b < 0)"
| "js_div PosInf y = NaN"
| "js_div NegInf y = NaN"


text \<open>\<^verbatim>\<open>a > b\<close> on numbers: false as soon as one side is \<^verbatim>\<open>NaN\<close>.\<close>

fun js_gt :: "jsnum \<Rightarrow> jsnum \<Rightarrow> bool" where
  "js_gt NaN y = False"
| "js_gt x NaN = False"
| "js_gt (Fin a) (Fin b) = (b < a)"
| "js_gt PosInf y = (y \<noteq> PosInf)"
| "js_gt NegInf y = False"
| "js_gt (Fin a) PosInf = False"
| "js_gt (Fin a) NegInf = True"

definition js_isNaN :: "jsnum \<Rightarrow> bool" where
  "js_isNaN n = (n = NaN)"

subsection \<open>Properties, equality, collections\<close>

text \<open>A canonical array index: decimal digits without a leading zero.\<close>

definition array_index :: "string \<Rightarrow> nat option" where
  "array_index k =
     (if k \<noteq> [] \<and> list_all is_digit k \<and> (k = ''0'' \<or> hd k \<noteq> CHR ''0'')
      then Some (digits_val k) else None)"

text \<open>
  \<^verbatim>\<open>v[k]\<close> and \<^verbatim>\<open>v.k\<close> on a value that is neither \<^verbatim>\<open>null\<close> nor \<^verbatim>\<open>undefined\<close> (on those the
  read throws, which the callers below write out).
\<close>

fun field :: "jsval \<Rightarrow> string \<Rightarrow> jsval" where
  "field (JObj kvs) k = (case map_of kvs k of None \<Rightarrow> JUndefined | Some v \<Rightarrow> v)"
| "field (JError m) k = (if k = ''message'' then JStr m else JUndefined)"
| "field (JArr xs) k =
     (if k = ''length'' then JNum (Fin (of_nat (length xs)))
      else case array_index k of
             None \<Rightarrow> JUndefined
           | Some i \<Rightarrow> if i < length xs then xs ! i else JUndefined)"
| "field (JStr s) k =
     (if k = ''length'' then JNum (Fin (of_nat (length s)))
      else case array_index k of
             None \<Rightarrow> JUndefined
           | Some i \<Rightarrow> if i < length s then JStr [s ! i] else JUndefined)"
| "field v k = JUndefined"

text \<open>
  \<^verbatim>\<open>a === b\<close>: primitives by value (\<^verbatim>\<open>NaN\<close> differs from itself); two objects parsed from
  a response are never the same object as a caller's value.
\<close>

fun strict_eq :: "jsval \<Rightarrow> jsval \<Rightarrow> bool" where
  "strict_eq JUndefined JUndefined = True"
| "strict_eq JNull JNull = True"
| "strict_eq (JBool a) (JBool b) = (a = b)"
| "strict_eq (JNum a) (JNum b) = (a = b \<and> a \<noteq> NaN)"
| "strict_eq (JStr a) (JStr b) = (a = b)"
| "strict_eq a b = False"

text \<open>
  What lodash's \<^verbatim>\<open>_.each\<close> and \<^verbatim>\<open>_.find\<close> iterate over: the elements of an array, the
  characters of a string, the property values of an object, nothing otherwise.
\<close>

fun elements :: "jsval \<Rightarrow> jsval list" where
  "elements (JArr xs) = xs"
| "elements (JStr s) = map (\<lambda>c. JStr [c]) s"
| "elements (JObj kvs) = map snd kvs"
| "elements v = []"


section \<open>The Poloniex wrapper\<close>

subsection \<open>Errors, callbacks and the environment\<close>

text \<open>
  \<^verbatim>\<open>new Error(v)\<close> carries the message \<^verbatim>\<open>String(v)\<close>; \<^verbatim>\<open>notFatal\<close> is the flag
  \<^verbatim>\<open>processResponse\<close> may set on it (absent reads as false).
\<close>

record js_error =
  message :: string
  notFatal :: bool

definition new_Error :: "jsval \<Rightarrow> js_error" where
  "new_Error v = \<lparr>message = ToString v, notFatal = False\<rparr>"

datatype exn = ReferenceError string | TypeError | Thrown jsval

text \<open>
  What a piece of code does to the callback it was given: it calls it, or it throws
  instead. A function that may call more than once returns a list of events.
\<close>

datatype 'a event = Call 'a | Throw exn

datatype ('e, 'a) reply = Failure 'e | Success 'a

text \<open>
  Everything \<^verbatim>\<open>processResponse\<close> reads besides its arguments: the clock (in milliseconds),
  \<^verbatim>\<open>moment.utc(v).valueOf()\<close> as a function of \<open>v\<close>, and the raw answer of the exchange to
  the open-orders request that \<^verbatim>\<open>findLastTrade\<close> sends.
\<close>

record env =
  now :: rat
  utc_ms :: "jsval \<Rightarrow> jsnum"
  orders_err :: jsval
  orders_data :: jsval

subsection \<open>Classification: processResponse\<close>

definition recoverableErrors :: "string list" where
  "recoverableErrors =
     [''SOCKETTIMEDOUT'', ''TIMEDOUT'', ''CONNRESET'', ''CONNREFUSED'', ''NOTFOUND'',
      ''429'', ''522'', ''504'', ''503'', ''500'', ''502'',
      ''Empty response'', ''Please try again in a few minutes.'',
      ''Nonce must be greater than'']"

definition unknownResultErrors :: "string list" where
  "unknownResultErrors = [''ETIMEDOUT'']"

text \<open>\<^verbatim>\<open>includes(str, list)\<close>: false unless \<open>str\<close> is a string.\<close>

definition includes_js :: "jsval \<Rightarrow> string list \<Rightarrow> bool" where
  "includes_js str items =
     (case str of JStr s \<Rightarrow> list_ex (\<lambda>item. sublist item s) items | _ \<Rightarrow> False)"

definition order_not_found :: string where
  "order_not_found = ''Order not found, or you are not the person who placed it.''"

definition invalid_order_number :: string where
  "invalid_order_number =
     ''Invalid order number, or you are not the person who placed the order.''"

text \<open>
  Lines 55 to 76 of \<^verbatim>\<open>processResponse\<close>: the error it builds from the raw pair, if any,
  and the body it keeps.
\<close>

definition raw_error :: "jsval \<Rightarrow> jsval \<Rightarrow> js_error option \<times> jsval" where
  "raw_error err data =
     (if truthy err then (Some (new_Error err), data)
      else if \<not> truthy data then (Some (new_Error (JStr ''Empty response'')), data)
      else if truthy (field data ''error'') then (Some (new_Error (field data ''error'')), data)
      else if includes_js data [''Please complete the security check to proceed.''] then
        (Some (new_Error (JStr (''Your IP has been flagged by CloudFlare. '' @
                                ''As such Gekko Broker cannot access Poloniex.''))),
         JUndefined)
      else if includes_js data [''Please try again in a few minutes.''] then
        (Some ((new_Error (JStr ''Please try again in a few minutes.''))\<lparr>notFatal := True\<rparr>),
         JUndefined)
      else if includes_js data [''<!DOCTYPE html>''] then (Some (new_Error data), JUndefined)
      else (None, data))"

text \<open>
  Lines 78 to 118: what the returned closure does before it returns. Either it calls
  \<^verbatim>\<open>next(error, data)\<close>, or (a placement whose result is unknown) it schedules
  \<^verbatim>\<open>findLastTrade\<close> and returns without calling \<^verbatim>\<open>next\<close>. The three overrides compare
  \<^verbatim>\<open>fn\<close> with three different strings, so at most one of them fires.
\<close>

datatype sync_result = Next "js_error option" jsval | FindLastTrade js_error

definition processResponse_sync :: "jsval \<Rightarrow> jsval \<Rightarrow> jsval \<Rightarrow> sync_result" where
  "processResponse_sync fn err data =
     (case raw_error err data of
        (None, data') \<Rightarrow> Next None data'
      | (Some error0, data') \<Rightarrow>
          (let error = (if includes_js (JStr (message error0)) recoverableErrors
                        then error0\<lparr>notFatal := True\<rparr> else error0)
           in if fn = JStr ''getOrder'' \<and> sublist order_not_found (message error)
              then Next None (JObj [(''unfilled'', JBool True)])
              else if fn = JStr ''cancelOrder'' \<and> sublist invalid_order_number (message error)
              then Next None (JObj [(''filled'', JBool True)])
              else if fn = JStr ''order'' \<and> includes_js (JStr (message error)) unknownResultErrors
              then FindLastTrade error
              else Next (Some error) data'))"

subsection \<open>findLastTrade\<close>

text \<open>
  \<^verbatim>\<open>_.find(result, o => moment.utc(o.date) > threshold)\<close>: the first element later than the
  threshold, \<^verbatim>\<open>undefined\<close> if there is none; reading \<^verbatim>\<open>o.date\<close> throws on a \<^verbatim>\<open>null\<close>
  element.
\<close>

fun find_recent :: "(jsval \<Rightarrow> jsnum) \<Rightarrow> jsnum \<Rightarrow> jsval list \<Rightarrow> exn + jsval" where
  "find_recent utc threshold [] = Inr JUndefined"
| "find_recent utc threshold (x # xs) =
     (if nullish x then Inl TypeError
      else if js_gt (utc (field x ''date'')) threshold then Inr x
      else find_recent utc threshold xs)"

text \<open>\<^verbatim>\<open>_.last(result)\<close>.\<close>

definition js_last :: "jsval \<Rightarrow> jsval" where
  "js_last v =
     (let n = field v ''length'' in
      if truthy n then field v (ToString (JNum (js_sub (ToNumber n) (Fin 1)))) else JUndefined)"

text \<open>
  The \<^verbatim>\<open>handle\<close> of \<^verbatim>\<open>findLastTrade\<close>, lines 123 to 140, as the list of things it does to
  \<^verbatim>\<open>callback\<close>. With an error it evaluates \<^verbatim>\<open>next(err)\<close>, and no \<^verbatim>\<open>next\<close> is in scope
  there. On an empty result it calls \<^verbatim>\<open>callback(undefined, undefined)\<close> and, there being
  no \<^verbatim>\<open>return\<close>, goes on to the search and the second call.
\<close>

definition findLastTrade_handle ::
  "env \<Rightarrow> jsval \<Rightarrow> js_error option \<Rightarrow> jsval \<Rightarrow> jsval event list" where
  "findLastTrade_handle e since err result =
     (case err of
        Some x \<Rightarrow> [Throw (ReferenceError ''next'')]
      | None \<Rightarrow>
          if nullish result then [Throw TypeError]
          else
            (if \<not> truthy (field result ''length'') then [Call JUndefined] else [])
            @ (if truthy since then
                 (case find_recent (utc_ms e)
                         (js_sub (Fin (now e)) (js_mul (ToNumber since) (Fin 60000)))
                         (elements result) of
                    Inl x \<Rightarrow> [Throw x]
                  | Inr order \<Rightarrow> [Call order])
               else [Call (js_last result)]))"

text \<open>
  \<^verbatim>\<open>retry(null, fetch, handle)\<close>: the helper \<^verbatim>\<open>retry\<close> of \<^verbatim>\<open>exchangeUtils\<close> is not among
  the sources. By the specification (section 4.2) it runs \<^verbatim>\<open>fetch\<close>, whose answer goes
  through \<^verbatim>\<open>processResponse\<close>, again while the outcome is a retryable error, and hands the
  pair of the attempt it settles on to \<^verbatim>\<open>handle\<close>. Every operation below is read at the
  attempt that settles.
\<close>

definition findLastTrade :: "env \<Rightarrow> jsval \<Rightarrow> jsval event list" where
  "findLastTrade e since =
     (case processResponse_sync JUndefined (orders_err e) (orders_data e) of
        Next err result \<Rightarrow> findLastTrade_handle e since err result
      | FindLastTrade x \<Rightarrow> [])"

text \<open>
  The whole of \<^verbatim>\<open>processResponse(next, fn)(err, data)\<close>: the calls of \<^verbatim>\<open>next\<close>, the timer
  of line 103 having fired. (\<^verbatim>\<open>this.checkInterval\<close>, its delay, is never assigned in this
  wrapper.)
\<close>

definition processResponse ::
  "env \<Rightarrow> jsval \<Rightarrow> jsval \<Rightarrow> jsval \<Rightarrow> (js_error option \<times> jsval) event list" where
  "processResponse e fn err data =
     (case processResponse_sync fn err data of
        Next error data' \<Rightarrow> [Call (error, data')]
      | FindLastTrade error \<Rightarrow>
          map (\<lambda>ev. case ev of
                      Call lastTrade \<Rightarrow>
                        if truthy lastTrade then Call (None, lastTrade)
                        else Call (Some error, JUndefined)
                    | Throw x \<Rightarrow> Throw x)
              (findLastTrade e (JNum (Fin 2))))"

text \<open>Each call of \<^verbatim>\<open>next\<close> that settles reaches the operation's \<^verbatim>\<open>handle\<close>.\<close>

definition settle ::
  "(js_error option \<Rightarrow> jsval \<Rightarrow> 'a event) \<Rightarrow> (js_error option \<times> jsval) event list
     \<Rightarrow> 'a event list" where
  "settle handle evs =
     map (\<lambda>ev. case ev of Call (err, result) \<Rightarrow> handle err result | Throw x \<Rightarrow> Throw x) evs"


subsection \<open>The operations\<close>

text \<open>
  \<^verbatim>\<open>getPortfolio\<close>, lines 145 to 171. \<^verbatim>\<open>parseFloat\<close> returns a number, so the two
  \<^verbatim>\<open>_.isNumber\<close> tests hold and only the \<^verbatim>\<open>_.isNaN\<close> tests decide.
\<close>

definition getPortfolio_handle ::
  "string \<Rightarrow> string \<Rightarrow> js_error option \<Rightarrow> jsval \<Rightarrow> (js_error, (string \<times> jsnum) list) reply event" where
  "getPortfolio_handle asset currency err data =
     (case err of
        Some x \<Rightarrow> Call (Failure x)
      | None \<Rightarrow>
          if nullish data then Throw TypeError
          else
            (let assetAmount = parseFloat (field data asset);
                 currencyAmount = parseFloat (field data currency)
             in if js_isNaN assetAmount \<or> js_isNaN currencyAmount
                then Call (Success [(asset, Fin 0), (currency, Fin 0)])
                else Call (Success [(asset, assetAmount), (currency, currencyAmount)])))"

definition getPortfolio ::
  "env \<Rightarrow> string \<Rightarrow> string \<Rightarrow> jsval \<Rightarrow> jsval \<Rightarrow> (js_error, (string \<times> jsnum) list) reply event list" where
  "getPortfolio e asset currency err data =
     settle (getPortfolio_handle asset currency) (processResponse e JUndefined err data)"



text \<open>
  \<^verbatim>\<open>buy\<close> and \<^verbatim>\<open>sell\<close>, lines 212 to 236: the same \<^verbatim>\<open>handle\<close>, and
  \<^verbatim>\<open>processResponse(next, 'order')\<close>.
\<close>

definition order_handle :: "js_error option \<Rightarrow> jsval \<Rightarrow> (js_error, jsval) reply event" where
  "order_handle err result =
     (case err of
        Some x \<Rightarrow> Call (Failure x)
      | None \<Rightarrow>
          if nullish result then Throw TypeError
          else Call (Success (field result ''orderNumber'')))"

definition buy :: "env \<Rightarrow> jsval \<Rightarrow> jsval \<Rightarrow> (js_error, jsval) reply event list" where
  "buy e err data = settle order_handle (processResponse e (JStr ''order'') err data)"

definition sell :: "env \<Rightarrow> jsval \<Rightarrow> jsval \<Rightarrow> (js_error, jsval) reply event list" where
  "sell e err data = settle order_handle (processResponse e (JStr ''order'') err data)"

text \<open>\<^verbatim>\<open>checkOrder\<close>, lines 238 to 260.\<close>

record order_status =
  executed :: bool
  is_open :: bool
  filledAmount :: "jsnum option"

text \<open>
  \<^verbatim>\<open>_.find(result, function(o) { return o.orderNumber === id })\<close>; reading the property
  of a \<^verbatim>\<open>null\<close> element throws.
\<close>

fun find_order :: "jsval \<Rightarrow> jsval list \<Rightarrow> exn + jsval" where
  "find_order ident [] = Inr JUndefined"
| "find_order ident (x # xs) =
     (if nullish x then Inl TypeError
      else if strict_eq (field x ''orderNumber'') ident then Inr x
      else find_order ident xs)"

definition checkOrder_handle ::
  "jsval \<Rightarrow> js_error option \<Rightarrow> jsval \<Rightarrow> (js_error, order_status) reply event" where
  "checkOrder_handle ident err result =
     (case err of
        Some x \<Rightarrow> Call (Failure x)
      | None \<Rightarrow>
          if nullish result then Throw TypeError
          else if truthy (field result ''completed'')
          then Call (Success \<lparr>executed = True, is_open = False, filledAmount = None\<rparr>)
          else
            (case find_order ident (elements result) of
               Inl x \<Rightarrow> Throw x
             | Inr order \<Rightarrow>
                 if \<not> truthy order
                 then Call (Success \<lparr>executed = True, is_open = False, filledAmount = None\<rparr>)
                 else Call (Success
                        \<lparr>executed = False, is_open = True,
                         filledAmount =
                           Some (js_sub (ToNumber (field order ''startingAmount''))
                                        (ToNumber (field order ''amount'')))\<rparr>)))"

definition checkOrder :: "env \<Rightarrow> jsval \<Rightarrow> jsval \<Rightarrow> jsval \<Rightarrow> (js_error, order_status) reply event list" where
  "checkOrder e ident err data =
     settle (checkOrder_handle ident) (processResponse e JUndefined err data)"

text \<open>
  \<^verbatim>\<open>getOrder\<close>, lines 262 to 286. \<^verbatim>\<open>moment(v)\<close> is the current time when \<open>v\<close> is
  \<^verbatim>\<open>undefined\<close>, the instant \<open>v\<close> milliseconds after the epoch when \<open>v\<close> is a number, and
  the result of parsing \<open>v\<close> otherwise.
\<close>

datatype moment = At jsnum | Parsed jsval

fun moment_of :: "rat \<Rightarrow> jsval \<Rightarrow> moment" where
  "moment_of t JUndefined = At (Fin t)"
| "moment_of t (JNum n) = At n"
| "moment_of t v = Parsed v"

record order_summary =
  price :: jsnum
  amount :: jsnum
  date :: moment

text \<open>The body of the \<^verbatim>\<open>_.each\<close> of lines 275 to 279, on the three variables it updates.\<close>

definition getOrder_step :: "rat \<Rightarrow> order_summary \<Rightarrow> jsval \<Rightarrow> order_summary" where
  "getOrder_step t acc trade =
     \<lparr>price = js_div (js_add (js_mul (price acc) (amount acc))
                            (js_mul (ToNumber (field trade ''rate''))
                                    (ToNumber (field trade ''amount''))))
                    (js_add (ToNumber (field trade ''amount'')) (amount acc)),
      amount = js_add (amount acc) (ToNumber (field trade ''amount'')),
      date = moment_of t (field trade ''date'')\<rparr>"

fun getOrder_each :: "rat \<Rightarrow> order_summary \<Rightarrow> jsval list \<Rightarrow> exn + order_summary" where
  "getOrder_each t acc [] = Inr acc"
| "getOrder_each t acc (trade # trades) =
     (if nullish trade then Inl TypeError
      else getOrder_each t (getOrder_step t acc trade) trades)"

definition getOrder_handle ::
  "rat \<Rightarrow> js_error option \<Rightarrow> jsval \<Rightarrow> (js_error, order_summary) reply event" where
  "getOrder_handle t err result =
     (case err of
        Some x \<Rightarrow> Call (Failure x)
      | None \<Rightarrow>
          (let start = \<lparr>price = Fin 0, amount = Fin 0, date = moment_of t (JNum (Fin 0))\<rparr>
           in if nullish result then Throw TypeError
              else if truthy (field result ''unfilled'') then Call (Success start)
              else (case getOrder_each t start (elements result) of
                      Inl x \<Rightarrow> Throw x
                    | Inr summary \<Rightarrow> Call (Success summary))))"

definition getOrder :: "env \<Rightarrow> jsval \<Rightarrow> jsval \<Rightarrow> (js_error, order_summary) reply event list" where
  "getOrder e err data =
     settle (getOrder_handle (now e)) (processResponse e (JStr ''getOrder'') err data)"

text \<open>\<^verbatim>\<open>cancelOrder\<close>, lines 288 to 307: the caller receives the flag \<^verbatim>\<open>filled\<close>.\<close>

definition cancelOrder_handle :: "js_error option \<Rightarrow> jsval \<Rightarrow> (js_error, bool) reply event" where
  "cancelOrder_handle err result =
     (case err of
        Some x \<Rightarrow> Call (Failure x)
      | None \<Rightarrow>
          if nullish result then Throw TypeError
          else if truthy (field result ''filled'') then Call (Success True)
          else if \<not> truthy (field result ''success'') then Call (Success False)
          else Call (Success False))"

definition cancelOrder :: "env \<Rightarrow> jsval \<Rightarrow> jsval \<Rightarrow> (js_error, bool) reply event list" where
  "cancelOrder e err data =
     settle cancelOrder_handle (processResponse e (JStr ''cancelOrder'') err data)"


section \<open>The Binance wrapper\<close>

subsection \<open>Classification: processError and handleResponse\<close>

text \<open>
  The regular expression of line 51 is an alternation of literal strings, so
  \<^verbatim>\<open>message.match(recoverableErrors)\<close> succeeds exactly when the message contains one of
  them.
\<close>

definition binance_recoverableErrors :: "string list" where
  "binance_recoverableErrors =
     [''SOCKETTIMEDOUT'', ''TIMEDOUT'', ''CONNRESET'', ''CONNREFUSED'', ''NOTFOUND'',
      ''Error -1021'', ''Response code 429'', ''Response code 5'']"

text \<open>
  The two error classes of \<^verbatim>\<open>exchangeErrors\<close> (not among the sources), as tags around the
  message.
\<close>

datatype binance_error = AbortError string | RetryError string

text \<open>
  \<^verbatim>\<open>processError\<close>, lines 53 to 61. \<^verbatim>\<open>'[binance.js] ' + error.message || error\<close> is the
  concatenation, a non-empty string. A message that is neither falsy nor a string has no
  \<^verbatim>\<open>match\<close> method, and calling it throws.
\<close>

definition processError :: "string \<Rightarrow> jsval \<Rightarrow> exn + binance_error option" where
  "processError funcName error =
     (if \<not> truthy error then Inr None
      else
        (let m = field error ''message'' in
         if \<not> truthy m then Inr (Some (AbortError (''[binance.js] '' @ ToString m)))
         else (case m of
                 JStr s \<Rightarrow>
                   if \<not> list_ex (\<lambda>item. sublist item s) binance_recoverableErrors
                   then Inr (Some (AbortError (''[binance.js] '' @ s)))
                   else Inr (Some (RetryError (''[binance.js] '' @ s)))
               | _ \<Rightarrow> Inl TypeError)))"

text \<open>\<^verbatim>\<open>handleResponse\<close>, lines 63 to 71: the pair it passes to \<^verbatim>\<open>callback\<close>.\<close>

definition handleResponse ::
  "string \<Rightarrow> jsval \<Rightarrow> jsval \<Rightarrow> (binance_error option \<times> jsval) event" where
  "handleResponse funcName error body =
     (let error' =
            (if truthy body \<and> truthy (field body ''code'')
             then JError (''Error '' @ ToString (field body ''code'') @ '': ''
                          @ ToString (field body ''msg''))
             else error)
      in case processError funcName error' of
           Inl x \<Rightarrow> Throw x
         | Inr err \<Rightarrow> Call (err, body))"

subsection \<open>Rounding\<close>










subsection \<open>checkOrder\<close>

text \<open>
  The \<^verbatim>\<open>check\<close> of \<^verbatim>\<open>checkOrder\<close>, lines 278 to 302, for the answer to a query of one
  order. The last statement is \<^verbatim>\<open>throw status\<close>.
\<close>

definition binance_check ::
  "binance_error option \<Rightarrow> jsval \<Rightarrow> (binance_error, order_status) reply event" where
  "binance_check err data =
     (case err of
        Some x \<Rightarrow> Call (Failure x)
      | None \<Rightarrow>
          if nullish data then Throw TypeError
          else
            (let status = field data ''status'' in
             if status = JStr ''CANCELED'' \<or> status = JStr ''REJECTED''
                \<or> status = JStr ''EXPIRED''
             then Call (Success \<lparr>executed = False, is_open = False, filledAmount = None\<rparr>)
             else if status = JStr ''NEW'' \<or> status = JStr ''PARTIALLY_FILLED''
             then Call (Success \<lparr>executed = False, is_open = True,
                                filledAmount = Some (ToNumber (field data ''executedQty''))\<rparr>)
             else if status = JStr ''FILLED''
             then Call (Success \<lparr>executed = True, is_open = False, filledAmount = None\<rparr>)
             else Throw (Thrown status)))"

definition binance_checkOrder ::
  "jsval \<Rightarrow> jsval \<Rightarrow> (binance_error, order_status) reply event" where
  "binance_checkOrder error body =
     (case handleResponse ''checkOrder'' error body of
        Throw x \<Rightarrow> Throw x
      | Call (err, data) \<Rightarrow> binance_check err data)"


section \<open>Reference definitions\<close>

text \<open>
  \<^verbatim>\<open>moment.utc(v).valueOf()\<close> at the time \<open>t\<close>, for the dates an exchange sends: the current
  time for a missing date, the number itself (clipped as \<^verbatim>\<open>new Date\<close> clips it) for epoch
  milliseconds, and the instant written for a string \<^verbatim>\<open>YYYY-MM-DD HH:mm:ss\<close> (the form
  Poloniex uses; \<^verbatim>\<open>T\<close> may stand for the space), read as UTC. A string of that form that
  names no date is an invalid date, whose value is \<^verbatim>\<open>NaN\<close>, and so is \<^verbatim>\<open>null\<close>. The other
  notations moment reads (arrays and objects of date parts, the further ISO 8601 and RFC 2822
  forms) are not among the values of this model; they are taken for invalid dates.
\<close>

definition is_leap :: "int \<Rightarrow> bool" where
  "is_leap y = (y mod 4 = 0 \<and> (y mod 100 \<noteq> 0 \<or> y mod 400 = 0))"

definition days_in_month :: "int \<Rightarrow> nat \<Rightarrow> int" where
  "days_in_month y m =
     (if m = 2 then (if is_leap y then 29 else 28)
      else if m = 4 \<or> m = 6 \<or> m = 9 \<or> m = 11 then 30 else 31)"

text \<open>The days from 1 January 1970 to the first day of the year \<open>y\<close>, and of its month \<open>m\<close>.\<close>

definition days_before_year :: "int \<Rightarrow> int" where
  "days_before_year y =
     365 * (y - 1970) + ((y - 1) div 4 - (y - 1) div 100 + (y - 1) div 400) - 477"

definition days_before_month :: "int \<Rightarrow> nat \<Rightarrow> int" where
  "days_before_month y m =
     days_before_year y + sum_list (map (days_in_month y) [1 ..< m])"

definition two_digits :: "string \<Rightarrow> nat \<Rightarrow> nat option" where
  "two_digits s i =
     (if i + 1 < length s \<and> is_digit (s ! i) \<and> is_digit (s ! (i + 1))
      then Some (10 * digit_val (s ! i) + digit_val (s ! (i + 1))) else None)"

definition parse_date_time :: "string \<Rightarrow> jsnum" where
  "parse_date_time s =
     (if length s = 19 \<and> s ! 4 = CHR ''-'' \<and> s ! 7 = CHR ''-''
         \<and> (s ! 10 = CHR '' '' \<or> s ! 10 = CHR ''T'') \<and> s ! 13 = CHR '':'' \<and> s ! 16 = CHR '':''
      then
        (case (two_digits s 0, two_digits s 2, two_digits s 5, two_digits s 8,
               two_digits s 11, two_digits s 14, two_digits s 17) of
           (Some c, Some y, Some m, Some d, Some h, Some mi, Some sec) \<Rightarrow>
             (let year = int (100 * c + y) in
              if 1 \<le> m \<and> m \<le> 12 \<and> 1 \<le> d \<and> int d \<le> days_in_month year m
                 \<and> (h \<le> 23 \<or> (h = 24 \<and> mi = 0 \<and> sec = 0)) \<and> mi \<le> 59 \<and> sec \<le> 59
              then Fin (of_int
                     ((((days_before_month year m + int d - 1) * 24 + int h) * 60 + int mi) * 60
                        + int sec) * 1000)
              else NaN)
         | _ \<Rightarrow> NaN)
      else NaN)"

fun time_clip :: "jsnum \<Rightarrow> jsnum" where
  "time_clip (Fin q) =
     (if 8640000000000000 < \<bar>q\<bar> then NaN
      else Fin (of_int (if 0 \<le> q then \<lfloor>q\<rfloor> else \<lceil>q\<rceil>)))"
| "time_clip x = NaN"

fun moment_utc :: "rat \<Rightarrow> jsval \<Rightarrow> jsnum" where
  "moment_utc t JUndefined = Fin t"
| "moment_utc t (JNum n) = time_clip n"
| "moment_utc t (JStr s) = parse_date_time s"
| "moment_utc t v = NaN"

text \<open>
  An exchange whose clock reads \<open>t\<close> and whose answer to the open-orders request is the body
  \<open>orders\<close>, without error.
\<close>

definition quiet :: "rat \<Rightarrow> jsval \<Rightarrow> env" where
  "quiet t orders =
     \<lparr>now = t, utc_ms = moment_utc t, orders_err = JNull, orders_data = orders\<rparr>"

fun is_object :: "jsval \<Rightarrow> bool" where
  "is_object (JObj kvs) = True"
| "is_object v = False"

text \<open>
  The reduction of fills as the specification words it (section 4.4), in the arithmetic of
  the program: \<open>price' = (price \<cdot> amount + fillRate \<cdot> fillAmount) / (amount + fillAmount)\<close> and
  \<open>amount' = amount + fillAmount\<close>, from price 0 and amount 0. A fill is the pair of its
  rate and its amount.
\<close>

definition vwap_step :: "jsnum \<times> jsnum \<Rightarrow> jsnum \<times> jsnum \<Rightarrow> jsnum \<times> jsnum" where
  "vwap_step acc fill =
     (case acc of (p, a) \<Rightarrow> case fill of (fillRate, fillAmount) \<Rightarrow>
        (js_div (js_add (js_mul p a) (js_mul fillRate fillAmount)) (js_add a fillAmount),
         js_add a fillAmount))"

definition vwap :: "(jsnum \<times> jsnum) list \<Rightarrow> jsnum \<times> jsnum" where
  "vwap fills = foldl vwap_step (Fin 0, Fin 0) fills"

text \<open>The fill a trade record of the exchange stands for: the numbers of its rate and amount.\<close>

definition fill_of :: "jsval \<Rightarrow> jsnum \<times> jsnum" where
  "fill_of trade = (ToNumber (field trade ''rate''), ToNumber (field trade ''amount''))"

text \<open>The order statuses for which the \<^verbatim>\<open>check\<close> of the Binance wrapper has a branch.\<close>

definition binance_known_statuses :: "string list" where
  "binance_known_statuses =
     [''CANCELED'', ''REJECTED'', ''EXPIRED'', ''NEW'', ''PARTIALLY_FILLED'', ''FILLED'']"

section \<open>Facts about rounding\<close>

lemma round_half_even_eqI:
  assumes "\<bar>x - of_int m\<bar> < 1 / 2"
  shows "round_half_even x = m"
proof -
  have "\<lfloor>x\<rfloor> = m \<or> \<lfloor>x\<rfloor> = m - 1" using assms by linarith
  then show ?thesis
  proof
    assume f: "\<lfloor>x\<rfloor> = m"
    then have "x - of_int m < 1 / 2" using assms by linarith
    with f show ?thesis by (simp add: round_half_even_def Let_def)
  next
    assume f: "\<lfloor>x\<rfloor> = m - 1"
    then have "1 / 2 < x - of_int (m - 1)" using assms by (simp; linarith)
    with f show ?thesis by (simp add: round_half_even_def Let_def)
  qed
qed

lemma binade_up_eq:
  "2 ^ j \<le> a \<Longrightarrow> a < 2 ^ Suc j \<Longrightarrow> j \<le> k \<Longrightarrow> binade_up k a e = e + int j"
proof (induction k arbitrary: a e j)
  case 0
  then show ?case by simp
next
  case (Suc k)
  show ?case
  proof (cases "2 \<le> a")
    case True
    then obtain i where j: "j = Suc i" using Suc.prems(2) by (cases j) auto
    have "2 ^ i \<le> a / 2" "a / 2 < 2 ^ Suc i" "i \<le> k"
      using Suc.prems j by auto
    from Suc.IH [OF this, of "e + 1"] True j show ?thesis by simp
  next
    case False
    then have "j = 0" using Suc.prems(1) by (cases j) (auto intro: order_trans [of 2 "2 * 2 ^ _" a])
    with False show ?thesis by simp
  qed
qed

lemma binade_down_eq:
  "1 \<le> a * 2 ^ j \<Longrightarrow> a * 2 ^ j < 2 \<Longrightarrow> j \<le> k \<Longrightarrow> binade_down k a e = e - int j"
proof (induction k arbitrary: a e j)
  case 0
  then show ?case by simp
next
  case (Suc k)
  show ?case
  proof (cases "a < 1")
    case True
    then obtain i where j: "j = Suc i" using Suc.prems(1) by (cases j) auto
    have "1 \<le> a * 2 * 2 ^ i" "a * 2 * 2 ^ i < 2" "i \<le> k"
      using Suc.prems j by (auto simp: mult.assoc)
    from Suc.IH [OF this, of "e - 1"] True j show ?thesis by simp
  next
    case False
    have "j = 0"
    proof (rule ccontr)
      assume "j \<noteq> 0"
      then obtain i where i: "j = Suc i" by (cases j) auto
      have "1 \<le> a" using False by simp
      moreover have "(1::rat) \<le> 2 ^ i" by simp
      ultimately have "1 * 1 \<le> a * 2 ^ i" by (intro mult_mono) auto
      then have "2 \<le> a * 2 ^ j" using i by simp
      then show False using Suc.prems(2) by simp
    qed
    with False show ?thesis by simp
  qed
qed

lemma pow2_neg: "pow2 (- int n) = 1 / 2 ^ n"
  by (cases n) (simp_all add: pow2_def nat_add_distrib)

text \<open>The binade of \<open>a\<close> is the one that contains it.\<close>

lemma binade_unique:
  assumes "pow2 e \<le> a" and "a < pow2 (e + 1)" and "- 1022 \<le> e" and "e \<le> 1023"
  shows "binade a = e"
proof (cases "0 \<le> e")
  case True
  define j where "j = nat e"
  have e: "e = int j" using True by (simp add: j_def)
  have 1: "2 ^ j \<le> a" using assms(1) by (simp add: e pow2_def)
  have 2: "a < 2 ^ Suc j" using assms(2) e by (simp add: pow2_def nat_add_distrib)
  have "(1::rat) \<le> 2 ^ j" by simp
  with 1 have "1 \<le> a" by linarith
  moreover have "j \<le> 1024" using assms(4) e by simp
  ultimately show ?thesis using binade_up_eq [OF 1 2, of 1024 0] e by (simp add: binade_def)
next
  case False
  define j where "j = nat (- e)"
  have e: "e = - int j" and jpos: "0 < j" using False by (simp_all add: j_def)
  obtain i where i: "j = Suc i" using jpos by (cases j) auto
  have p: "pow2 e = 1 / 2 ^ j" by (simp only: e pow2_neg)
  have "e + 1 = - int i" by (simp add: e i)
  then have p1: "pow2 (e + 1) = 1 / 2 ^ i"
    by (simp only: pow2_neg)
  have 1: "1 \<le> a * 2 ^ j" using assms(1) by (simp add: p field_simps)
  have lt: "a < 1 / 2 ^ i" using assms(2) unfolding p1 .
  have 2: "a * 2 ^ j < 2" using lt by (simp add: i field_simps)
  have "1 / 2 ^ i \<le> (1::rat)" by simp
  with lt have "a < 1" by linarith
  moreover have "j \<le> 1022" using assms(3) e by simp
  ultimately show ?thesis using binade_down_eq [OF 1 2, of 1022 0] e by (simp add: binade_def)
qed

text \<open>
  How a rounding is checked: \<open>q\<close> lies in the binade \<open>e\<close>, and \<open>m\<close> is the integer nearest to
  \<open>q / 2\<^sup>e\<^sup>-\<^sup>5\<^sup>2\<close>, not half way to the next.
\<close>

lemma fl_eqI:
  assumes "0 < q" and "pow2 e \<le> q" and "q < pow2 (e + 1)"
    and "- 1022 \<le> e" and "e \<le> 1023"
    and "\<bar>q / pow2 (e - 52) - of_int m\<bar> < 1 / 2"
    and "r = of_int m * pow2 (e - 52)" and "r < pow2 1024"
  shows "fl q = Fin r"
proof -
  have b: "binade q = e" using binade_unique [of e q] assms(2-5) by simp
  have m: "round_half_even (q / pow2 (e - 52)) = m"
    using round_half_even_eqI [OF assms(6)] .
  show ?thesis using assms(1,7,8) by (simp add: fl_def b m Let_def)
qed

lemma round_half_even_tie:
  assumes "x = of_int n + 1 / 2"
  shows "round_half_even x = (if even n then n else n + 1)"
proof -
  have "\<lfloor>x\<rfloor> = n" using assms by linarith
  then show ?thesis using assms by (simp add: round_half_even_def Let_def)
qed

text \<open>The same for a \<open>q\<close> half way between two doubles: the even multiple is taken.\<close>

lemma fl_tieI:
  assumes "0 < q" and "pow2 e \<le> q" and "q < pow2 (e + 1)"
    and "- 1022 \<le> e" and "e \<le> 1023"
    and "q / pow2 (e - 52) = of_int n + 1 / 2"
    and "m = (if even n then n else n + 1)"
    and "r = of_int m * pow2 (e - 52)" and "r < pow2 1024"
  shows "fl q = Fin r"
proof -
  have b: "binade q = e" using binade_unique [of e q] assms(2-5) by simp
  have m: "round_half_even (q / pow2 (e - 52)) = m"
    using round_half_even_tie [OF assms(6)] assms(7) by simp
  show ?thesis using assms(1,8,9) by (simp add: fl_def b m Let_def)
qed

lemma fl_zero: "fl 0 = Fin 0"
  by (simp add: fl_def)

lemma fl_neg: "fl (- q) = negate (fl q)"
  by (cases "q = 0"; cases "0 < q") (auto simp: fl_def Let_def signed_inf_def)

text \<open>
  Roundings that the proofs below evaluate, each checked by \<open>fl_eqI\<close> or \<open>fl_tieI\<close>. The powers
  of ten up to \<open>10\<^sup>2\<^sup>2\<close> are doubles.
\<close>

lemma fl_1: "fl (1) = Fin (1)"
  by (rule fl_eqI [where e = 0 and m = 4503599627370496]) (simp_all add: pow2_def)

lemma fl_10: "fl (10) = Fin (10)"
  by (rule fl_eqI [where e = 3 and m = 5629499534213120]) (simp_all add: pow2_def)

lemma fl_100: "fl (100) = Fin (100)"
  by (rule fl_eqI [where e = 6 and m = 7036874417766400]) (simp_all add: pow2_def)






















lemma js_add_commute: "js_add x y = js_add y x"
  by (cases x; cases y) (simp_all add: add.commute)


section \<open>Facts about classification\<close>

lemma raw_error_NoneD:
  "raw_error err data = (None, d)
     \<Longrightarrow> d = data \<and> truthy data \<and> \<not> truthy err \<and> \<not> truthy (field data ''error'')"
  by (auto simp: raw_error_def split: if_splits)

lemma try_again_recoverable:
  "list_ex (\<lambda>item. sublist item ''Please try again in a few minutes.'') recoverableErrors"
  by (simp add: recoverableErrors_def sublist_code prefix_code)

lemma raw_error_notFatal:
  "raw_error err data = (Some x, d) \<Longrightarrow> notFatal x
     \<Longrightarrow> message x = ''Please try again in a few minutes.''"
  by (auto simp: raw_error_def new_Error_def split: if_splits)

text \<open>
  After line 82 the flag \<^verbatim>\<open>notFatal\<close> says exactly whether the message contains an entry
  of the table: the one error born with the flag carries a message of the table.
\<close>

lemma raw_error_flag:
  assumes "raw_error err data = (Some x, d)"
  shows "(if includes_js (JStr (message x)) recoverableErrors then x\<lparr>notFatal := True\<rparr> else x)
           = x\<lparr>notFatal := list_ex (\<lambda>s. sublist s (message x)) recoverableErrors\<rparr>"
proof (cases "list_ex (\<lambda>s. sublist s (message x)) recoverableErrors")
  case True
  then show ?thesis by (simp add: includes_js_def)
next
  case False
  with raw_error_notFatal [OF assms] try_again_recoverable have "\<not> notFatal x" by auto
  with False show ?thesis by (simp add: includes_js_def)
qed

lemma processResponse_sync_error:
  assumes "raw_error err data = (Some x, d)"
  shows "processResponse_sync fn err data =
     (if fn = JStr ''getOrder'' \<and> sublist order_not_found (message x)
      then Next None (JObj [(''unfilled'', JBool True)])
      else if fn = JStr ''cancelOrder'' \<and> sublist invalid_order_number (message x)
      then Next None (JObj [(''filled'', JBool True)])
      else if fn = JStr ''order'' \<and> list_ex (\<lambda>s. sublist s (message x)) unknownResultErrors
      then FindLastTrade
             (x\<lparr>notFatal := list_ex (\<lambda>s. sublist s (message x)) recoverableErrors\<rparr>)
      else Next (Some (x\<lparr>notFatal := list_ex (\<lambda>s. sublist s (message x)) recoverableErrors\<rparr>))
             d)"
  using raw_error_flag [OF assms] assms
  by (simp add: processResponse_sync_def Let_def includes_js_def)

lemma processResponse_sync_ok:
  assumes "raw_error err data = (None, d)"
  shows "processResponse_sync fn err data = Next None data"
  using assms raw_error_NoneD [OF assms] by (simp add: processResponse_sync_def)

lemma processResponse_plain_ok:
  assumes "raw_error err data = (None, d)"
  shows "processResponse e fn err data = [Call (None, data)]"
  using processResponse_sync_ok [OF assms] by (simp add: processResponse_def)

lemma raw_error_array: "\<not> truthy err \<Longrightarrow> raw_error err (JArr os) = (None, JArr os)"
  by (simp add: raw_error_def includes_js_def array_index_def is_digit_def)

text \<open>Outside the placement path \<^verbatim>\<open>next\<close> is called once, and at once.\<close>

lemma processResponse_sync_not_order:
  assumes "fn \<noteq> JStr ''order''"
  shows "processResponse_sync fn err data \<noteq> FindLastTrade x"
proof (cases "raw_error err data")
  case (Pair a d)
  then show ?thesis using assms
    by (cases a) (simp_all add: processResponse_sync_ok processResponse_sync_error)
qed

lemma processResponse_once:
  assumes "fn \<noteq> JStr ''order''"
  shows "\<exists>p. processResponse e fn err data = [Call p]"
  using processResponse_sync_not_order [OF assms, of err data]
  by (cases "processResponse_sync fn err data") (auto simp: processResponse_def)

text \<open>A body that arrives without an error is never \<^verbatim>\<open>null\<close> or \<^verbatim>\<open>undefined\<close>.\<close>

lemma processResponse_data_not_nullish:
  assumes "processResponse e fn err data = [Call (None, d)]" and "fn \<noteq> JStr ''order''"
  shows "\<not> nullish d"
proof (cases "raw_error err data")
  case (Pair a d')
  show ?thesis
  proof (cases a)
    case None
    with Pair have "truthy data" "processResponse e fn err data = [Call (None, data)]"
      using raw_error_NoneD processResponse_plain_ok by blast+
    with assms show ?thesis by (auto simp: nullish_def)
  next
    case (Some x)
    with Pair assms show ?thesis
      by (auto simp: processResponse_def processResponse_sync_error nullish_def
            split: if_splits)
  qed
qed

section \<open>Placement with an unknown result (C1)\<close>

lemma timeout_raw_error:
  "raw_error (JStr ''ETIMEDOUT'') JUndefined
     = (Some \<lparr>message = ''ETIMEDOUT'', notFatal = False\<rparr>, JUndefined)"
  by (simp add: raw_error_def new_Error_def)

text \<open>
  \<^verbatim>\<open>ETIMEDOUT\<close> contains \<^verbatim>\<open>TIMEDOUT\<close>, an entry of \<^verbatim>\<open>recoverableErrors\<close>: the error that
  the placement path keeps for \<^verbatim>\<open>next\<close> is flagged \<^verbatim>\<open>notFatal\<close>.
\<close>

lemma timeout_sync:
  "processResponse_sync (JStr ''order'') (JStr ''ETIMEDOUT'') JUndefined
     = FindLastTrade \<lparr>message = ''ETIMEDOUT'', notFatal = True\<rparr>"
  by (simp add: processResponse_sync_error [OF timeout_raw_error] unknownResultErrors_def
        recoverableErrors_def sublist_code prefix_code)

text \<open>
  C1 at the input where the code departs from it. A \<^verbatim>\<open>buy\<close> attempt fails with
  \<^verbatim>\<open>ETIMEDOUT\<close> and the exchange then reports no open order at all (the body \<^verbatim>\<open>[]\<close>). The
  claim has the callback invoked with the original error; the code invokes \<^verbatim>\<open>next\<close> with
  it twice, since line 129 of \<^verbatim>\<open>findLastTrade\<close> does not return, and so the \<^verbatim>\<open>handle\<close> of
  \<^verbatim>\<open>buy\<close> would fail the caller twice.
\<close>

theorem buy_timeout_no_open_orders:
  "processResponse (quiet 0 (JArr [])) (JStr ''order'') (JStr ''ETIMEDOUT'') JUndefined
     = [Call (Some \<lparr>message = ''ETIMEDOUT'', notFatal = True\<rparr>, JUndefined),
        Call (Some \<lparr>message = ''ETIMEDOUT'', notFatal = True\<rparr>, JUndefined)]
   \<and> buy (quiet 0 (JArr [])) (JStr ''ETIMEDOUT'') JUndefined
     = [Call (Failure \<lparr>message = ''ETIMEDOUT'', notFatal = True\<rparr>),
        Call (Failure \<lparr>message = ''ETIMEDOUT'', notFatal = True\<rparr>)]"
proof -
  have "findLastTrade (quiet 0 (JArr [])) (JNum (Fin 2)) = [Call JUndefined, Call JUndefined]"
    by (simp add: findLastTrade_def quiet_def processResponse_sync_ok [OF raw_error_array]
          findLastTrade_handle_def nullish_def)
  then show ?thesis
    by (simp add: buy_def processResponse_def timeout_sync settle_def order_handle_def)
qed

text \<open>
  The same attempt when the look-up itself fails for good (here a rejected key): line 125
  evaluates \<^verbatim>\<open>next(err)\<close> where no \<^verbatim>\<open>next\<close> is bound, a \<^verbatim>\<open>ReferenceError\<close>, and \<^verbatim>\<open>next\<close>
  is never called.
\<close>

lemma buy_timeout_lookup_fails:
  "processResponse
      \<lparr>now = 0, utc_ms = moment_utc 0, orders_err = JStr ''Invalid API key'',
       orders_data = JUndefined\<rparr>
      (JStr ''order'') (JStr ''ETIMEDOUT'') JUndefined
     = [Throw (ReferenceError ''next'')]"
proof -
  have "raw_error (JStr ''Invalid API key'') JUndefined
          = (Some \<lparr>message = ''Invalid API key'', notFatal = False\<rparr>, JUndefined)"
    by (simp add: raw_error_def new_Error_def)
  then show ?thesis
    by (simp add: processResponse_def timeout_sync findLastTrade_def processResponse_sync_error
          findLastTrade_handle_def recoverableErrors_def sublist_code prefix_code)
qed

text \<open>
  Where C1 holds: the look-up answers with a non-empty list of orders. The first order
  that \<^verbatim>\<open>moment.utc\<close> dates within the last two minutes, if there is one, goes to \<^verbatim>\<open>next\<close> as
  the result and \<^verbatim>\<open>buy\<close> hands its \<^verbatim>\<open>orderNumber\<close> to the caller; without one \<^verbatim>\<open>next\<close>
  receives the original error, once.
\<close>

lemma buy_timeout_open_orders:
  assumes "list_all is_object os" and "os \<noteq> []"
    and "orders_err e = JNull" and "orders_data e = JArr os"
  shows "processResponse e (JStr ''order'') (JStr ''ETIMEDOUT'') JUndefined
     = (case find (\<lambda>x. js_gt (utc_ms e (field x ''date''))
                              (js_sub (Fin (now e)) (js_mul (Fin 2) (Fin 60000)))) os of
          None \<Rightarrow> [Call (Some \<lparr>message = ''ETIMEDOUT'', notFatal = True\<rparr>, JUndefined)]
        | Some x \<Rightarrow> [Call (None, x)])"
proof -
  have f: "find_recent utc thr os
      = Inr (case find (\<lambda>x. js_gt (utc (field x ''date'')) thr) os of
               None \<Rightarrow> JUndefined | Some x \<Rightarrow> x)" for utc thr
    using assms(1)
  proof (induction os)
    case Nil
    then show ?case by simp
  next
    case (Cons a os)
    then show ?case by (cases a) (simp_all add: nullish_def)
  qed
  have o: "find P os = Some x \<Longrightarrow> truthy x" for P x
    using assms(1)
  proof (induction os)
    case Nil
    then show ?case by simp
  next
    case (Cons a os)
    then show ?case by (cases a) (auto split: if_splits)
  qed
  have "findLastTrade e (JNum (Fin 2))
      = [Call (case find (\<lambda>x. js_gt (utc_ms e (field x ''date''))
                                    (js_sub (Fin (now e)) (js_mul (Fin 2) (Fin 60000)))) os of
                 None \<Rightarrow> JUndefined | Some x \<Rightarrow> x)]"
    using assms(2)
    by (simp add: findLastTrade_def assms(3,4) processResponse_sync_ok [OF raw_error_array]
          findLastTrade_handle_def nullish_def f del: js_mul.simps)
  then show ?thesis
    using o by (auto simp: processResponse_def timeout_sync split: option.splits)
qed

section \<open>The not-found override (C2)\<close>

text \<open>
  C2, as the code has it. The override for the message ``Order not found, or you are not
  the person who placed it.'' is keyed on \<^verbatim>\<open>fn === 'getOrder'\<close>, the tag \<^verbatim>\<open>getOrder\<close>
  passes: for every raw response whose error message contains that text,
  \<^verbatim>\<open>processResponse(next, 'getOrder')\<close> calls \<^verbatim>\<open>next\<close> once, without error and with
  \<^verbatim>\<open>{ unfilled: true }\<close>, and \<^verbatim>\<open>getOrder\<close> delivers price 0, amount 0 and the epoch to its
  caller as a success.
\<close>

theorem getOrder_order_not_found:
  assumes "raw_error err data = (Some x, d)" and "sublist order_not_found (message x)"
  shows "processResponse e (JStr ''getOrder'') err data
           = [Call (None, JObj [(''unfilled'', JBool True)])]
     \<and> getOrder e err data
           = [Call (Success \<lparr>price = Fin 0, amount = Fin 0, date = At (Fin 0)\<rparr>)]"
  using processResponse_sync_error [OF assms(1), of "JStr ''getOrder''"] assms(2)
  by (simp add: processResponse_def getOrder_def settle_def getOrder_handle_def nullish_def)

text \<open>
  Witness for C2: the body \<^verbatim>\<open>{ error: 'Order not found, or you are not the person who
  placed it.' }\<close> on the \<^verbatim>\<open>getOrder\<close> path.
\<close>

theorem getOrder_order_not_found_witness:
  "processResponse (quiet 0 (JArr [])) (JStr ''getOrder'') JNull
       (JObj [(''error'', JStr order_not_found)])
     = [Call (None, JObj [(''unfilled'', JBool True)])]
   \<and> getOrder (quiet 0 (JArr [])) JNull (JObj [(''error'', JStr order_not_found)])
     = [Call (Success \<lparr>price = Fin 0, amount = Fin 0, date = At (Fin 0)\<rparr>)]"
proof -
  have 1: "raw_error JNull (JObj [(''error'', JStr order_not_found)])
             = (Some \<lparr>message = order_not_found, notFatal = False\<rparr>,
                JObj [(''error'', JStr order_not_found)])"
    by (simp add: raw_error_def new_Error_def order_not_found_def)
  have 2: "sublist order_not_found (message \<lparr>message = order_not_found, notFatal = False\<rparr>)"
    by simp
  show ?thesis
    using getOrder_order_not_found [OF 1 2, of "quiet 0 (JArr [])"] by simp
qed

text \<open>
  C2 as stated fails on the check-order path: \<^verbatim>\<open>checkOrder\<close> calls
  \<^verbatim>\<open>processResponse(next)\<close> without a tag, so the same response reaches its caller as an
  error.
\<close>

theorem checkOrder_order_not_found_counterexample:
  "checkOrder (quiet 0 (JArr [])) (JStr ''120466'') JNull
       (JObj [(''error'', JStr order_not_found)])
     = [Call (Failure \<lparr>message = order_not_found, notFatal = False\<rparr>)]"
  by (simp add: checkOrder_def processResponse_def processResponse_sync_def raw_error_def
        new_Error_def includes_js_def recoverableErrors_def order_not_found_def
        sublist_code prefix_code settle_def checkOrder_handle_def)

section \<open>Cancelling (C3)\<close>

text \<open>
  C3, as the code has it. \<^verbatim>\<open>cancelOrder\<close> resolves to one boolean or to an error: a
  response that carries no error and no \<^verbatim>\<open>filled\<close> field gives \<^verbatim>\<open>false\<close>, whatever its
  \<^verbatim>\<open>success\<close> field says; a response whose error message contains ``Invalid order number,
  or you are not the person who placed the order.'' gives \<^verbatim>\<open>true\<close>; every other response
  that carries an error reaches the caller as that error.
\<close>

theorem cancelOrder_filled_flag:
  "(raw_error err data = (None, d) \<and> \<not> truthy (field data ''filled'')
      \<longrightarrow> cancelOrder e err data = [Call (Success False)])
   \<and> (raw_error err data = (Some x, d) \<and> sublist invalid_order_number (message x)
      \<longrightarrow> cancelOrder e err data = [Call (Success True)])
   \<and> (raw_error err data = (Some x, d) \<and> \<not> sublist invalid_order_number (message x)
      \<longrightarrow> (\<exists>x'. cancelOrder e err data = [Call (Failure x')] \<and> message x' = message x))"
proof (intro conjI impI)
  assume a: "raw_error err data = (None, d) \<and> \<not> truthy (field data ''filled'')"
  then have "truthy data" using raw_error_NoneD by blast
  then have "\<not> nullish data" by (auto simp: nullish_def)
  with a show "cancelOrder e err data = [Call (Success False)]"
    by (simp add: cancelOrder_def processResponse_def processResponse_sync_ok settle_def
          cancelOrder_handle_def)
next
  assume "raw_error err data = (Some x, d) \<and> sublist invalid_order_number (message x)"
  then show "cancelOrder e err data = [Call (Success True)]"
    by (simp add: cancelOrder_def processResponse_def processResponse_sync_error settle_def
          cancelOrder_handle_def nullish_def)
next
  assume "raw_error err data = (Some x, d) \<and> \<not> sublist invalid_order_number (message x)"
  then show "\<exists>x'. cancelOrder e err data = [Call (Failure x')] \<and> message x' = message x"
    by (simp add: cancelOrder_def processResponse_def processResponse_sync_error settle_def
          cancelOrder_handle_def)
qed

text \<open>
  Witness for C3: a successful cancel, the already-filled message, and a rejected key.
\<close>

theorem cancelOrder_filled_flag_witness:
  "cancelOrder (quiet 0 (JArr [])) JNull (JObj [(''success'', JNum (Fin 1))])
     = [Call (Success False)]
   \<and> cancelOrder (quiet 0 (JArr [])) JNull (JObj [(''error'', JStr invalid_order_number)])
     = [Call (Success True)]
   \<and> (\<exists>x'. cancelOrder (quiet 0 (JArr [])) (JStr ''Invalid API key'') JUndefined
              = [Call (Failure x')]
         \<and> message x' = ''Invalid API key'')"
proof -
  have 1: "raw_error JNull (JObj [(''success'', JNum (Fin 1))])
             = (None, JObj [(''success'', JNum (Fin 1))])
      \<and> \<not> truthy (field (JObj [(''success'', JNum (Fin 1))]) ''filled'')"
    by (simp add: raw_error_def includes_js_def)
  have 2: "raw_error JNull (JObj [(''error'', JStr invalid_order_number)])
             = (Some \<lparr>message = invalid_order_number, notFatal = False\<rparr>,
                JObj [(''error'', JStr invalid_order_number)])
      \<and> sublist invalid_order_number
           (message \<lparr>message = invalid_order_number, notFatal = False\<rparr>)"
    by (simp add: raw_error_def new_Error_def invalid_order_number_def)
  have 3: "raw_error (JStr ''Invalid API key'') JUndefined
             = (Some \<lparr>message = ''Invalid API key'', notFatal = False\<rparr>, JUndefined)
      \<and> \<not> sublist invalid_order_number
             (message \<lparr>message = ''Invalid API key'', notFatal = False\<rparr>)"
    by (simp add: raw_error_def new_Error_def invalid_order_number_def sublist_code prefix_code)
  from 1 2 3 show ?thesis
    using cancelOrder_filled_flag [where err = JNull
          and data = "JObj [(''success'', JNum (Fin 1))]"
          and d = "JObj [(''success'', JNum (Fin 1))]" and e = "quiet 0 (JArr [])"]
      cancelOrder_filled_flag [where err = JNull
          and data = "JObj [(''error'', JStr invalid_order_number)]"
          and d = "JObj [(''error'', JStr invalid_order_number)]"
          and x = "\<lparr>message = invalid_order_number, notFatal = False\<rparr>"
          and e = "quiet 0 (JArr [])"]
      cancelOrder_filled_flag [where err = "JStr ''Invalid API key''" and data = JUndefined
          and d = JUndefined and x = "\<lparr>message = ''Invalid API key'', notFatal = False\<rparr>"
          and e = "quiet 0 (JArr [])"]
    by simp
qed

text \<open>
  C3 as stated fails in its last part: a response without an error field whose
  \<^verbatim>\<open>success\<close> field is 0 is not a successful cancel, yet line 298 answers it with
  \<^verbatim>\<open>callback(undefined, false)\<close>, a success with \<^verbatim>\<open>filled = false\<close>.
\<close>

theorem cancelOrder_unsuccessful_counterexample:
  "raw_error JNull (JObj [(''success'', JNum (Fin 0))])
     = (None, JObj [(''success'', JNum (Fin 0))])
   \<and> \<not> truthy (field (JObj [(''success'', JNum (Fin 0))]) ''success'')
   \<and> cancelOrder (quiet 0 (JArr [])) JNull (JObj [(''success'', JNum (Fin 0))])
       = [Call (Success False)]"
  by (simp add: raw_error_def includes_js_def cancelOrder_def processResponse_def
        processResponse_sync_def settle_def cancelOrder_handle_def nullish_def)


section \<open>Order status (C4)\<close>

lemma find_order_objects:
  "list_all is_object os \<Longrightarrow>
   find_order ident os =
     Inr (case find (\<lambda>x. strict_eq (field x ''orderNumber'') ident) os of
            None \<Rightarrow> JUndefined | Some x \<Rightarrow> x)"
proof (induction os)
  case Nil
  then show ?case by simp
next
  case (Cons a os)
  then obtain kvs where "a = JObj kvs" by (cases a) auto
  with Cons show ?case by (simp add: nullish_def)
qed

lemma find_object: "list_all is_object os \<Longrightarrow> find P os = Some x \<Longrightarrow> truthy x"
proof (induction os)
  case Nil
  then show ?case by simp
next
  case (Cons a os)
  then show ?case by (cases a) (auto split: if_splits)
qed

lemma checkOrder_open_orders:
  assumes "\<not> truthy err" and "list_all is_object os"
  shows "checkOrder e ident err (JArr os) =
     [Call (Success
        (case find (\<lambda>x. strict_eq (field x ''orderNumber'') ident) os of
           None \<Rightarrow> \<lparr>executed = True, is_open = False, filledAmount = None\<rparr>
         | Some order \<Rightarrow>
             \<lparr>executed = False, is_open = True,
              filledAmount = Some (js_sub (ToNumber (field order ''startingAmount''))
                                          (ToNumber (field order ''amount'')))\<rparr>))]"
proof -
  have p: "processResponse e JUndefined err (JArr os) = [Call (None, JArr os)]"
    using processResponse_plain_ok [OF raw_error_array [OF assms(1)]] .
  have c: "array_index ''completed'' = None"
    by (simp add: array_index_def is_digit_def)
  show ?thesis
  proof (cases "find (\<lambda>x. strict_eq (field x ''orderNumber'') ident) os")
    case None
    then show ?thesis
      by (simp add: checkOrder_def p settle_def checkOrder_handle_def nullish_def c
            find_order_objects [OF assms(2)])
  next
    case (Some x)
    then have "truthy x" using find_object [OF assms(2)] by blast
    with Some show ?thesis
      by (simp add: checkOrder_def p settle_def checkOrder_handle_def nullish_def c
            find_order_objects [OF assms(2)])
  qed
qed

lemma handleResponse_plain:
  assumes "\<not> truthy error" and "\<not> truthy (field body ''code'')"
  shows "handleResponse f error body = Call (None, body)"
  using assms by (simp add: handleResponse_def processError_def)

lemma binance_check_status:
  assumes "\<not> nullish body"
  shows "binance_check None body =
     (if field body ''status'' \<in> JStr ` set binance_known_statuses
      then Call (Success
        (if field body ''status'' = JStr ''FILLED''
         then \<lparr>executed = True, is_open = False, filledAmount = None\<rparr>
         else if field body ''status'' = JStr ''NEW''
                 \<or> field body ''status'' = JStr ''PARTIALLY_FILLED''
         then \<lparr>executed = False, is_open = True,
               filledAmount = Some (ToNumber (field body ''executedQty''))\<rparr>
         else \<lparr>executed = False, is_open = False, filledAmount = None\<rparr>))
      else Throw (Thrown (field body ''status'')))"
  using assms by (auto simp: binance_check_def binance_known_statuses_def Let_def)

text \<open>
  C4, as the code has it. Poloniex: when the response is a list of open orders, the first
  one whose \<^verbatim>\<open>orderNumber\<close> is the queried identifier makes \<^verbatim>\<open>checkOrder\<close> report open, not
  executed, with \<^verbatim>\<open>filledAmount\<close> its starting amount minus its remaining amount; when no
  order of the list has the identifier, executed and not open. Binance asks for the one
  order and goes by its status: \<^verbatim>\<open>NEW\<close> and \<^verbatim>\<open>PARTIALLY_FILLED\<close> are open, not executed,
  with \<^verbatim>\<open>filledAmount\<close> the executed quantity; \<^verbatim>\<open>FILLED\<close> is executed and not open;
  \<^verbatim>\<open>CANCELED\<close>, \<^verbatim>\<open>REJECTED\<close> and \<^verbatim>\<open>EXPIRED\<close> are neither executed nor open.
\<close>

theorem checkOrder_states:
  "(\<not> truthy err \<and> list_all is_object os
      \<longrightarrow> checkOrder e ident err (JArr os) =
           [Call (Success
              (case find (\<lambda>x. strict_eq (field x ''orderNumber'') ident) os of
                 None \<Rightarrow> \<lparr>executed = True, is_open = False, filledAmount = None\<rparr>
               | Some order \<Rightarrow>
                   \<lparr>executed = False, is_open = True,
                    filledAmount = Some (js_sub (ToNumber (field order ''startingAmount''))
                                                (ToNumber (field order ''amount'')))\<rparr>))])
   \<and> (\<not> truthy error \<and> \<not> nullish body \<and> \<not> truthy (field body ''code'')
        \<and> field body ''status'' \<in> JStr ` set binance_known_statuses
      \<longrightarrow> binance_checkOrder error body =
           Call (Success
             (if field body ''status'' = JStr ''FILLED''
              then \<lparr>executed = True, is_open = False, filledAmount = None\<rparr>
              else if field body ''status'' = JStr ''NEW''
                      \<or> field body ''status'' = JStr ''PARTIALLY_FILLED''
              then \<lparr>executed = False, is_open = True,
                    filledAmount = Some (ToNumber (field body ''executedQty''))\<rparr>
              else \<lparr>executed = False, is_open = False, filledAmount = None\<rparr>)))"
  using checkOrder_open_orders [of err os e ident]
  by (simp add: binance_checkOrder_def handleResponse_plain binance_check_status)

lemma fl_40: "fl (40) = Fin (40)"
  by (rule fl_eqI [where e = 5 and m = 5629499534213120]) (simp_all add: pow2_def)

lemma fl_60: "fl (60) = Fin (60)"
  by (rule fl_eqI [where e = 5 and m = 8444249301319680]) (simp_all add: pow2_def)

lemma fl_1_2: "fl (1 / 2) = Fin (1 / 2)"
  by (rule fl_eqI [where e = "- 1" and m = 4503599627370496]) (simp_all add: pow2_def)

text \<open>
  Witness for C4: on Poloniex an order of 100 with 40 remaining, asked for by its number and
  by another number; on Binance a partially filled order.
\<close>

theorem checkOrder_states_witness:
  "checkOrder (quiet 0 (JArr [])) (JStr ''120466'') JNull
      (JArr [JObj [(''orderNumber'', JStr ''120466''), (''startingAmount'', JStr ''100''),
                   (''amount'', JStr ''40'')]])
     = [Call (Success \<lparr>executed = False, is_open = True, filledAmount = Some (Fin 60)\<rparr>)]
   \<and> checkOrder (quiet 0 (JArr [])) (JStr ''120467'') JNull
      (JArr [JObj [(''orderNumber'', JStr ''120466''), (''startingAmount'', JStr ''100''),
                   (''amount'', JStr ''40'')]])
     = [Call (Success \<lparr>executed = True, is_open = False, filledAmount = None\<rparr>)]
   \<and> binance_checkOrder JNull
        (JObj [(''status'', JStr ''PARTIALLY_FILLED''), (''executedQty'', JStr ''0.5'')])
     = Call (Success \<lparr>executed = False, is_open = True, filledAmount = Some (Fin (1 / 2))\<rparr>)"
proof -
  let ?os = "[JObj [(''orderNumber'', JStr ''120466''), (''startingAmount'', JStr ''100''),
                    (''amount'', JStr ''40'')]]"
  let ?b = "JObj [(''status'', JStr ''PARTIALLY_FILLED''), (''executedQty'', JStr ''0.5'')]"
  have n: "StringToNumber ''100'' = Fin 100" "StringToNumber ''40'' = Fin 40"
    "StringToNumber ''0.5'' = Fin (1 / 2)"
    by (simp_all add: StringToNumber_def trim_def is_space_def scan_decimal_def
          scan_unsigned_def scan_exponent_def is_digit_def digits_val_def digit_val_def Let_def
          fl_100 fl_40 fl_1_2)
  show ?thesis
    using checkOrder_states [where err = JNull and os = ?os and e = "quiet 0 (JArr [])"
        and ident = "JStr ''120466''" and error = JNull and body = ?b]
      checkOrder_states [where err = JNull and os = ?os and e = "quiet 0 (JArr [])"
        and ident = "JStr ''120467''" and error = JNull and body = ?b]
    by (simp add: nullish_def binance_known_statuses_def js_sub_def n fl_60)
qed

text \<open>
  C4 as stated fails on Binance: a cancelled order is not among the open orders, and
  \<^verbatim>\<open>checkOrder\<close> reports it as not executed (line 290), not as filled.
\<close>

theorem binance_checkOrder_canceled_counterexample:
  "binance_checkOrder JNull (JObj [(''orderId'', JNum (Fin 42)), (''status'', JStr ''CANCELED'')])
     = Call (Success \<lparr>executed = False, is_open = False, filledAmount = None\<rparr>)"
  by (simp add: binance_checkOrder_def handleResponse_def processError_def binance_check_def
        nullish_def)

section \<open>Callbacks and throws (C5)\<close>

lemma cancelOrder_once: "\<exists>r. cancelOrder e err data = [Call r]"
proof -
  obtain a d where p: "processResponse e (JStr ''cancelOrder'') err data = [Call (a, d)]"
    using processResponse_once [of "JStr ''cancelOrder''" e err data] by auto
  show ?thesis
  proof (cases a)
    case None
    with p have "\<not> nullish d" using processResponse_data_not_nullish by blast
    with p None show ?thesis by (simp add: cancelOrder_def settle_def cancelOrder_handle_def)
  next
    case (Some x)
    with p show ?thesis by (simp add: cancelOrder_def settle_def cancelOrder_handle_def)
  qed
qed

lemma getPortfolio_once: "\<exists>r. getPortfolio e asset currency err data = [Call r]"
proof -
  obtain a d where p: "processResponse e JUndefined err data = [Call (a, d)]"
    using processResponse_once [of JUndefined e err data] by auto
  show ?thesis
  proof (cases a)
    case None
    with p have "\<not> nullish d" using processResponse_data_not_nullish by blast
    with p None show ?thesis
      by (simp add: getPortfolio_def settle_def getPortfolio_handle_def Let_def)
  next
    case (Some x)
    with p show ?thesis by (simp add: getPortfolio_def settle_def getPortfolio_handle_def)
  qed
qed

text \<open>
  C5, as the code has it. Outside the placement path \<^verbatim>\<open>processResponse\<close> calls \<^verbatim>\<open>next\<close>
  exactly once and does not throw; \<^verbatim>\<open>cancelOrder\<close> and \<^verbatim>\<open>getPortfolio\<close> of the Poloniex
  wrapper invoke their callback exactly once for every raw response. The \<^verbatim>\<open>checkOrder\<close> of
  the Binance wrapper invokes its callback for a classified error and for the statuses
  \<^verbatim>\<open>CANCELED\<close>, \<^verbatim>\<open>REJECTED\<close>, \<^verbatim>\<open>EXPIRED\<close>, \<^verbatim>\<open>NEW\<close>, \<^verbatim>\<open>PARTIALLY_FILLED\<close> and \<^verbatim>\<open>FILLED\<close>; for
  any other status it throws the status and never invokes the callback.
\<close>

theorem callback_or_throw:
  "(fn \<noteq> JStr ''order'' \<longrightarrow> (\<exists>p. processResponse e fn err data = [Call p]))
   \<and> (\<exists>r. cancelOrder e err data = [Call r])
   \<and> (\<exists>r. getPortfolio e asset currency err data = [Call r])
   \<and> binance_check (Some x) body = Call (Failure x)
   \<and> (\<not> truthy error \<and> \<not> nullish body \<and> \<not> truthy (field body ''code'')
        \<and> field body ''status'' \<in> JStr ` set binance_known_statuses
      \<longrightarrow> (\<exists>r. binance_checkOrder error body = Call (Success r)))
   \<and> (\<not> truthy error \<and> \<not> nullish body \<and> \<not> truthy (field body ''code'')
        \<and> field body ''status'' \<notin> JStr ` set binance_known_statuses
      \<longrightarrow> binance_checkOrder error body = Throw (Thrown (field body ''status'')))"
  using processResponse_once [of fn e err data] cancelOrder_once [of e err data]
    getPortfolio_once [of e asset currency err data]
  by (simp add: binance_checkOrder_def handleResponse_plain binance_check_status)
     (simp add: binance_check_def)

text \<open>
  Witness for C5: a socket timeout on the \<^verbatim>\<open>getOrder\<close> path, a filled Binance order, and a
  Binance order with the status \<^verbatim>\<open>EXPIRED_IN_MATCH\<close>.
\<close>

theorem callback_or_throw_witness:
  "(\<exists>p. processResponse (quiet 0 (JArr [])) (JStr ''getOrder'') (JStr ''ESOCKETTIMEDOUT'')
           JUndefined = [Call p])
   \<and> (\<exists>r. binance_checkOrder JNull (JObj [(''status'', JStr ''FILLED'')]) = Call (Success r))
   \<and> binance_checkOrder JNull (JObj [(''status'', JStr ''EXPIRED_IN_MATCH'')])
       = Throw (Thrown (JStr ''EXPIRED_IN_MATCH''))"
  using callback_or_throw [where fn = "JStr ''getOrder''" and e = "quiet 0 (JArr [])"
      and err = "JStr ''ESOCKETTIMEDOUT''" and data = JUndefined
      and error = JNull and body = "JObj [(''status'', JStr ''FILLED'')]"]
    callback_or_throw [where error = JNull
      and body = "JObj [(''status'', JStr ''EXPIRED_IN_MATCH'')]"]
  by (simp add: nullish_def binance_known_statuses_def)

text \<open>
  C5 as stated fails: the throw of line 301 is reached by an order whose status is
  \<^verbatim>\<open>PENDING_CANCEL\<close>, and the callback is not invoked.
\<close>

theorem binance_checkOrder_pending_cancel_counterexample:
  "binance_checkOrder JNull (JObj [(''status'', JStr ''PENDING_CANCEL'')])
     = Throw (Thrown (JStr ''PENDING_CANCEL''))"
  by (simp add: binance_checkOrder_def handleResponse_def processError_def binance_check_def
        nullish_def)


section \<open>Recoverable errors (C6)\<close>

lemma processError_Error:
  "processError f (JError m) =
     Inr (Some (if list_ex (\<lambda>s. sublist s m) binance_recoverableErrors
                then RetryError (''[binance.js] '' @ m)
                else AbortError (''[binance.js] '' @ m)))"
proof (cases "m = []")
  case True
  then show ?thesis
    by (simp add: processError_def binance_recoverableErrors_def)
next
  case False
  then show ?thesis by (simp add: processError_def)
qed

text \<open>
  C6, as the code has it: each wrapper has a table of its own. Poloniex: an error that no
  override takes (not the not-found message under \<^verbatim>\<open>getOrder\<close>, not the invalid-number
  message under \<^verbatim>\<open>cancelOrder\<close>, not \<^verbatim>\<open>ETIMEDOUT\<close> under \<^verbatim>\<open>order\<close>) reaches \<^verbatim>\<open>next\<close> with
  \<^verbatim>\<open>notFatal\<close> set exactly when its message contains an entry of \<open>recoverableErrors\<close>
  (\<^verbatim>\<open>SOCKETTIMEDOUT\<close>, \<^verbatim>\<open>TIMEDOUT\<close>, \<^verbatim>\<open>CONNRESET\<close>, \<^verbatim>\<open>CONNREFUSED\<close>, \<^verbatim>\<open>NOTFOUND\<close>, 429, 522,
  504, 503, 500, 502, ``Empty response'', ``Please try again in a few minutes.'', ``Nonce
  must be greater than''). Binance: an \<^verbatim>\<open>Error\<close> becomes a \<^verbatim>\<open>RetryError\<close> exactly when its
  message contains an entry of \<open>binance_recoverableErrors\<close> (the first five above,
  ``Error -1021'', ``Response code 429'', ``Response code 5''), an \<^verbatim>\<open>AbortError\<close> otherwise.
\<close>

theorem recoverable_signatures_retryable:
  "(raw_error err data = (Some x, d)
      \<and> \<not> (fn = JStr ''getOrder'' \<and> sublist order_not_found (message x))
      \<and> \<not> (fn = JStr ''cancelOrder'' \<and> sublist invalid_order_number (message x))
      \<and> \<not> (fn = JStr ''order'' \<and> list_ex (\<lambda>s. sublist s (message x)) unknownResultErrors)
    \<longrightarrow> processResponse e fn err data
          = [Call (Some (x\<lparr>notFatal :=
                             list_ex (\<lambda>s. sublist s (message x)) recoverableErrors\<rparr>), d)])
   \<and> processError f (JError m)
       = Inr (Some (if list_ex (\<lambda>s. sublist s m) binance_recoverableErrors
                    then RetryError (''[binance.js] '' @ m)
                    else AbortError (''[binance.js] '' @ m)))"
  by (auto simp: processResponse_def processResponse_sync_error processError_Error)

text \<open>
  Witness for C6: a socket timeout and a rejected order on Poloniex, a 503 and a rejected
  key on Binance.
\<close>

theorem recoverable_signatures_retryable_witness:
  "processResponse (quiet 0 (JArr [])) (JStr ''cancelOrder'') (JStr ''ESOCKETTIMEDOUT'')
      JUndefined
     = [Call (Some \<lparr>message = ''ESOCKETTIMEDOUT'', notFatal = True\<rparr>, JUndefined)]
   \<and> processResponse (quiet 0 (JArr [])) (JStr ''order'') JNull
      (JObj [(''error'', JStr ''Not enough BTC.'')])
     = [Call (Some \<lparr>message = ''Not enough BTC.'', notFatal = False\<rparr>,
              JObj [(''error'', JStr ''Not enough BTC.'')])]
   \<and> processError ''addOrder'' (JError ''Response code 503'')
     = Inr (Some (RetryError ''[binance.js] Response code 503''))
   \<and> processError ''addOrder'' (JError ''Error -2015: Invalid API-key, IP, or permissions'')
     = Inr (Some (AbortError ''[binance.js] Error -2015: Invalid API-key, IP, or permissions''))"
proof -
  have 1: "raw_error (JStr ''ESOCKETTIMEDOUT'') JUndefined
      = (Some \<lparr>message = ''ESOCKETTIMEDOUT'', notFatal = False\<rparr>, JUndefined)"
    by (simp add: raw_error_def new_Error_def)
  have 2: "raw_error JNull (JObj [(''error'', JStr ''Not enough BTC.'')])
      = (Some \<lparr>message = ''Not enough BTC.'', notFatal = False\<rparr>,
         JObj [(''error'', JStr ''Not enough BTC.'')])"
    by (simp add: raw_error_def new_Error_def)
  have 3: "list_ex (\<lambda>s. sublist s ''ESOCKETTIMEDOUT'') recoverableErrors"
    "\<not> sublist invalid_order_number ''ESOCKETTIMEDOUT''"
    by (simp_all add: recoverableErrors_def invalid_order_number_def sublist_code prefix_code)
  have 4: "\<not> list_ex (\<lambda>s. sublist s ''Not enough BTC.'') recoverableErrors"
    "\<not> list_ex (\<lambda>s. sublist s ''Not enough BTC.'') unknownResultErrors"
    by (simp_all add: recoverableErrors_def unknownResultErrors_def sublist_code prefix_code)
  have 5: "list_ex (\<lambda>s. sublist s ''Response code 503'') binance_recoverableErrors"
    "\<not> list_ex (\<lambda>s. sublist s ''Error -2015: Invalid API-key, IP, or permissions'')
         binance_recoverableErrors"
    by (simp_all add: binance_recoverableErrors_def sublist_code prefix_code)
  show ?thesis
    using recoverable_signatures_retryable [where err = "JStr ''ESOCKETTIMEDOUT''"
        and data = JUndefined and x = "\<lparr>message = ''ESOCKETTIMEDOUT'', notFatal = False\<rparr>"
        and d = JUndefined and fn = "JStr ''cancelOrder''" and e = "quiet 0 (JArr [])"
        and f = "''addOrder''" and m = "''Response code 503''"]
      recoverable_signatures_retryable [where err = JNull
        and data = "JObj [(''error'', JStr ''Not enough BTC.'')]"
        and x = "\<lparr>message = ''Not enough BTC.'', notFatal = False\<rparr>"
        and d = "JObj [(''error'', JStr ''Not enough BTC.'')]"
        and fn = "JStr ''order''" and e = "quiet 0 (JArr [])" and f = "''addOrder''"
        and m = "''Error -2015: Invalid API-key, IP, or permissions''"]
    by (simp add: 1 2 3 4 5)
qed

text \<open>
  C6 as stated, with one list of signatures for both wrappers, fails on Binance: ``Empty
  response'' and ``Please try again in a few minutes.'' are on the claim's list and are
  classified fatal there, and ``Error -1021'', which is not on it, is retried.
\<close>

theorem binance_signatures_counterexample:
  "processError ''getTicker'' (JError ''Empty response'')
     = Inr (Some (AbortError ''[binance.js] Empty response''))
   \<and> processError ''getTicker'' (JError ''Please try again in a few minutes.'')
     = Inr (Some (AbortError ''[binance.js] Please try again in a few minutes.''))
   \<and> handleResponse ''getTicker'' JNull
        (JObj [(''code'', JNum (Fin (- 1021))),
               (''msg'', JStr ''Timestamp for this request is outside of the recvWindow.'')])
     = Call (Some (RetryError
          ''[binance.js] Error -1021: Timestamp for this request is outside of the recvWindow.''),
        JObj [(''code'', JNum (Fin (- 1021))),
              (''msg'', JStr ''Timestamp for this request is outside of the recvWindow.'')])"
proof -
  have "ToString (JNum (Fin (- 1021))) = ''-1021''"
    by (simp add: show_rat_def show_nat.simps digit_char_def)
  then show ?thesis
    by (simp add: handleResponse_def processError_def binance_recoverableErrors_def
          sublist_code prefix_code)
qed

section \<open>The fill summary (C7)\<close>

lemma fl_2: "fl (2) = Fin (2)"
  by (rule fl_eqI [where e = 1 and m = 4503599627370496]) (simp_all add: pow2_def)

lemma fl_20: "fl (20) = Fin (20)"
  by (rule fl_eqI [where e = 4 and m = 5629499534213120]) (simp_all add: pow2_def)

lemma fl_30: "fl (30) = Fin (30)"
  by (rule fl_eqI [where e = 4 and m = 8444249301319680]) (simp_all add: pow2_def)

lemma fl_15: "fl (15) = Fin (15)"
  by (rule fl_eqI [where e = 3 and m = 8444249301319680]) (simp_all add: pow2_def)

lemma fl_1_10: "fl (1 / 10) = Fin (3602879701896397 / 36028797018963968)"
  by (rule fl_eqI [where e = "- 4" and m = 7205759403792794]) (simp_all add: pow2_def)

lemma fl_1_5: "fl (1 / 5) = Fin (3602879701896397 / 18014398509481984)"
  by (rule fl_eqI [where e = "- 3" and m = 7205759403792794]) (simp_all add: pow2_def)

lemma fl_3602879701896397_36028797018963968: "fl (3602879701896397 / 36028797018963968) = Fin (3602879701896397 / 36028797018963968)"
  by (rule fl_eqI [where e = "- 4" and m = 7205759403792794]) (simp_all add: pow2_def)

lemma fl_3602879701896397_18014398509481984: "fl (3602879701896397 / 18014398509481984) = Fin (3602879701896397 / 18014398509481984)"
  by (rule fl_eqI [where e = "- 3" and m = 7205759403792794]) (simp_all add: pow2_def)

lemma fl_18014398509481985_18014398509481984: "fl (18014398509481985 / 18014398509481984) = Fin (1)"
  by (rule fl_eqI [where e = 0 and m = 4503599627370496]) (simp_all add: pow2_def)

lemma fl_18014398509481985_9007199254740992: "fl (18014398509481985 / 9007199254740992) = Fin (2)"
  by (rule fl_eqI [where e = 1 and m = 4503599627370496]) (simp_all add: pow2_def)

lemma fl_36028797018963968_3602879701896397: "fl (36028797018963968 / 3602879701896397) = Fin (10)"
  by (rule fl_eqI [where e = 3 and m = 5629499534213120]) (simp_all add: pow2_def)

lemma fl_3: "fl (3) = Fin (3)"
  by (rule fl_eqI [where e = 1 and m = 6755399441055744]) (simp_all add: pow2_def)

lemma fl_10808639105689191_36028797018963968: "fl (10808639105689191 / 36028797018963968) = Fin (1351079888211149 / 4503599627370496)"
  by (rule fl_tieI [where e = "- 2" and n = 5404319552844595 and m = 5404319552844596]) (simp_all add: pow2_def)

lemma fl_13510798882111488_1351079888211149: "fl (13510798882111488 / 1351079888211149) = Fin (5629499534213119 / 562949953421312)"
  by (rule fl_eqI [where e = 3 and m = 5629499534213119]) (simp_all add: pow2_def)

text \<open>
  The loop of \<^verbatim>\<open>getOrder\<close> is the reduction: line 277 adds the amounts in the other order,
  which gives the same double.
\<close>

lemma getOrder_step_vwap:
  "getOrder_step t \<lparr>price = p, amount = a, date = d\<rparr> trade
     = \<lparr>price = fst (vwap_step (p, a) (fill_of trade)),
        amount = snd (vwap_step (p, a) (fill_of trade)),
        date = moment_of t (field trade ''date'')\<rparr>"
  by (simp add: getOrder_step_def vwap_step_def fill_of_def
        js_add_commute [of "ToNumber (field trade ''amount'')" a])

lemma getOrder_each_vwap:
  assumes "list_all (\<lambda>trade. \<not> nullish trade) trades"
  shows "getOrder_each t \<lparr>price = p, amount = a, date = d\<rparr> trades =
     Inr \<lparr>price = fst (foldl vwap_step (p, a) (map fill_of trades)),
          amount = snd (foldl vwap_step (p, a) (map fill_of trades)),
          date = (if trades = [] then d else moment_of t (field (last trades) ''date''))\<rparr>"
  using assms
proof (induction trades arbitrary: p a d)
  case Nil
  then show ?case by simp
next
  case (Cons tr trades)
  from Cons.prems have nn: "\<not> nullish tr" and rest: "list_all (\<lambda>trade. \<not> nullish trade) trades"
    by simp_all
  show ?case
    using Cons.IH [OF rest, of "fst (vwap_step (p, a) (fill_of tr))"
        "snd (vwap_step (p, a) (fill_of tr))" "moment_of t (field tr ''date'')"]
    by (simp add: nn getOrder_step_vwap)
qed

text \<open>
  C7. On a response that is a list of fills, \<^verbatim>\<open>getOrder\<close> delivers as a success the price
  and the amount that the running volume-weighted average of the specification computes
  from the rates and amounts of the fills, every product, sum and quotient being a double as
  in the program, and the date of the last fill. The fills (rate 10, amount 1), (rate 20,
  amount 1) reduce to price 15 and amount 2, in the specification's reduction and in the code
  on the strings the exchange sends. The empty list, and the \<^verbatim>\<open>unfilled\<close> marker, give price
  0, amount 0 and the epoch, as a success.
\<close>

theorem getOrder_weighted_average:
  assumes "\<not> truthy err" and "list_all (\<lambda>trade. \<not> nullish trade) trades"
  shows "getOrder e err (JArr trades) =
           [Call (Success
              \<lparr>price = fst (vwap (map fill_of trades)),
               amount = snd (vwap (map fill_of trades)),
               date = (if trades = [] then At (Fin 0)
                       else moment_of (now e) (field (last trades) ''date''))\<rparr>)]
     \<and> vwap [(Fin 10, Fin 1), (Fin 20, Fin 1)] = (Fin 15, Fin 2)
     \<and> getOrder e JNull
          (JArr [JObj [(''rate'', JStr ''10.00000000''), (''amount'', JStr ''1.00000000''),
                       (''date'', JStr ''2018-03-01 10:00:00'')],
                 JObj [(''rate'', JStr ''20.00000000''), (''amount'', JStr ''1.00000000''),
                       (''date'', JStr ''2018-03-01 10:00:05'')]])
         = [Call (Success \<lparr>price = Fin 15, amount = Fin 2,
                           date = Parsed (JStr ''2018-03-01 10:00:05'')\<rparr>)]
     \<and> vwap [] = (Fin 0, Fin 0)
     \<and> getOrder e JNull (JArr [])
         = [Call (Success \<lparr>price = Fin 0, amount = Fin 0, date = At (Fin 0)\<rparr>)]
     \<and> getOrder_handle t None (JObj [(''unfilled'', JBool True)])
         = Call (Success \<lparr>price = Fin 0, amount = Fin 0, date = At (Fin 0)\<rparr>)"
proof (intro conjI)
  have q: "processResponse e (JStr ''getOrder'') err (JArr trades) = [Call (None, JArr trades)]"
    using processResponse_plain_ok [OF raw_error_array [OF assms(1)]] .
  show "getOrder e err (JArr trades) =
           [Call (Success
              \<lparr>price = fst (vwap (map fill_of trades)),
               amount = snd (vwap (map fill_of trades)),
               date = (if trades = [] then At (Fin 0)
                       else moment_of (now e) (field (last trades) ''date''))\<rparr>)]"
    using getOrder_each_vwap [OF assms(2), of "now e" "Fin 0" "Fin 0" "At (Fin 0)"]
    by (simp add: getOrder_def q settle_def getOrder_handle_def nullish_def vwap_def
          array_index_def is_digit_def)
  show "vwap [(Fin 10, Fin 1), (Fin 20, Fin 1)] = (Fin 15, Fin 2)"
    by (simp add: vwap_def vwap_step_def fl_zero fl_1 fl_2 fl_10 fl_20 fl_30 fl_15)
  show "vwap [] = (Fin 0, Fin 0)"
    by (simp add: vwap_def)
  show "getOrder_handle t None (JObj [(''unfilled'', JBool True)])
         = Call (Success \<lparr>price = Fin 0, amount = Fin 0, date = At (Fin 0)\<rparr>)"
    by (simp add: getOrder_handle_def nullish_def)
  have p: "processResponse e (JStr ''getOrder'') JNull (JArr os) = [Call (None, JArr os)]"
    for os
    using processResponse_plain_ok [OF raw_error_array [of JNull os]] by simp
  show "getOrder e JNull (JArr [])
         = [Call (Success \<lparr>price = Fin 0, amount = Fin 0, date = At (Fin 0)\<rparr>)]"
    by (simp add: getOrder_def p settle_def getOrder_handle_def nullish_def array_index_def
          is_digit_def)
  have n: "StringToNumber ''10.00000000'' = Fin 10" "StringToNumber ''20.00000000'' = Fin 20"
    "StringToNumber ''1.00000000'' = Fin 1"
    by (simp_all add: StringToNumber_def trim_def is_space_def scan_decimal_def
          scan_unsigned_def scan_exponent_def is_digit_def digits_val_def digit_val_def Let_def
          fl_1 fl_2 fl_10 fl_20 fl_30 fl_15)
  show "getOrder e JNull
          (JArr [JObj [(''rate'', JStr ''10.00000000''), (''amount'', JStr ''1.00000000''),
                       (''date'', JStr ''2018-03-01 10:00:00'')],
                 JObj [(''rate'', JStr ''20.00000000''), (''amount'', JStr ''1.00000000''),
                       (''date'', JStr ''2018-03-01 10:00:05'')]])
         = [Call (Success \<lparr>price = Fin 15, amount = Fin 2,
                           date = Parsed (JStr ''2018-03-01 10:00:05'')\<rparr>)]"
    by (simp add: getOrder_def p settle_def getOrder_handle_def nullish_def array_index_def
          is_digit_def getOrder_step_def n fl_zero fl_1 fl_2 fl_10 fl_20 fl_30 fl_15)
qed

text \<open>
  Witness for C7: two fills at the rate 10, of the amounts \<^verbatim>\<open>'0.1'\<close> and \<^verbatim>\<open>'0.2'\<close>. The sum
  of the amounts is the double 0.30000000000000004 and the price the double
  9.999999999999998, as the program computes them.
\<close>

theorem getOrder_weighted_average_witness:
  "getOrder (quiet 5000 (JArr [])) JNull
      (JArr [JObj [(''rate'', JNum (Fin 10)), (''amount'', JStr ''0.1''),
                   (''date'', JNum (Fin 1000))],
             JObj [(''rate'', JNum (Fin 10)), (''amount'', JStr ''0.2''),
                   (''date'', JNum (Fin 2000))]])
     = [Call (Success \<lparr>price = Fin (5629499534213119 / 562949953421312), amount = Fin (1351079888211149 / 4503599627370496),
                       date = At (Fin 2000)\<rparr>)]"
proof -
  let ?ts = "[JObj [(''rate'', JNum (Fin 10)), (''amount'', JStr ''0.1''),
                    (''date'', JNum (Fin 1000))],
              JObj [(''rate'', JNum (Fin 10)), (''amount'', JStr ''0.2''),
                    (''date'', JNum (Fin 2000))]]"
  have 1: "\<not> truthy JNull" by simp
  have 2: "list_all (\<lambda>trade. \<not> nullish trade) ?ts"
    by (simp add: nullish_def)
  have n: "StringToNumber ''0.1'' = Fin (3602879701896397 / 36028797018963968)"
    "StringToNumber ''0.2'' = Fin (3602879701896397 / 18014398509481984)"
    by (simp_all add: StringToNumber_def trim_def is_space_def scan_decimal_def
          scan_unsigned_def scan_exponent_def is_digit_def digits_val_def digit_val_def Let_def
          fl_1_10 fl_1_5 fl_3602879701896397_36028797018963968 fl_3602879701896397_18014398509481984 fl_18014398509481985_18014398509481984 fl_18014398509481985_9007199254740992 fl_36028797018963968_3602879701896397 fl_3 fl_10808639105689191_36028797018963968 fl_13510798882111488_1351079888211149)
  show ?thesis
    using getOrder_weighted_average [OF 1 2, of "quiet 5000 (JArr [])"]
    by (simp add: fill_of_def vwap_def vwap_step_def n fl_zero fl_1 fl_2 fl_10 fl_20 fl_30 fl_15 fl_1_10 fl_1_5 fl_3602879701896397_36028797018963968 fl_3602879701896397_18014398509481984 fl_18014398509481985_18014398509481984 fl_18014398509481985_9007199254740992 fl_36028797018963968_3602879701896397 fl_3 fl_10808639105689191_36028797018963968 fl_13510798882111488_1351079888211149)
qed

section \<open>Rounding (C8)\<close>










































































































section \<open>Determinism (C9)\<close>

lemma moment_of_dated: "v \<noteq> JUndefined \<Longrightarrow> moment_of t1 v = moment_of t2 v"
  by (cases v) simp_all

lemma getOrder_step_clock:
  "field trade ''date'' \<noteq> JUndefined
     \<Longrightarrow> getOrder_step t1 acc trade = getOrder_step t2 acc trade"
  using moment_of_dated [of "field trade ''date''" t1 t2] by (simp add: getOrder_step_def)

lemma getOrder_each_clock:
  "\<forall>trade \<in> set trades. field trade ''date'' \<noteq> JUndefined
     \<Longrightarrow> getOrder_each t1 acc trades = getOrder_each t2 acc trades"
proof (induction trades arbitrary: acc)
  case Nil
  then show ?case by simp
next
  case (Cons a trades)
  then show ?case using getOrder_step_clock [of a t1 acc t2] by simp
qed

lemma getOrder_handle_clock:
  "truthy (field result ''unfilled'')
     \<or> (\<forall>trade \<in> set (elements result). field trade ''date'' \<noteq> JUndefined)
     \<Longrightarrow> getOrder_handle t1 err result = getOrder_handle t2 err result"
  using getOrder_each_clock [of "elements result" t1 _ t2]
  by (cases err) (auto simp: getOrder_handle_def Let_def)

lemma processResponse_env:
  assumes "\<forall>x. processResponse_sync fn err data \<noteq> FindLastTrade x"
  shows "processResponse e1 fn err data = processResponse e2 fn err data"
  using assms by (cases "processResponse_sync fn err data") (simp_all add: processResponse_def)

lemma processResponse_sync_not_timeout:
  assumes "\<forall>x d. raw_error err data = (Some x, d) \<longrightarrow> \<not> sublist ''ETIMEDOUT'' (message x)"
  shows "processResponse_sync fn err data \<noteq> FindLastTrade y"
proof (cases "raw_error err data")
  case (Pair a d)
  then show ?thesis using assms
    by (cases a)
       (simp_all add: processResponse_sync_ok processResponse_sync_error
          unknownResultErrors_def)
qed

lemma getOrder_elements:
  assumes "processResponse e (JStr ''getOrder'') err data = [Call (None, d)]"
    and "\<forall>trade \<in> set (elements data). field trade ''date'' \<noteq> JUndefined"
  shows "truthy (field d ''unfilled'')
     \<or> (\<forall>trade \<in> set (elements d). field trade ''date'' \<noteq> JUndefined)"
proof (cases "raw_error err data")
  case (Pair a d')
  show ?thesis
  proof (cases a)
    case None
    with Pair assms show ?thesis
      by (simp add: processResponse_def processResponse_sync_ok)
  next
    case (Some x)
    with Pair assms(1) have "d = JObj [(''unfilled'', JBool True)]"
      by (auto simp: processResponse_def processResponse_sync_error split: if_splits)
    then show ?thesis by simp
  qed
qed


text \<open>
  C9, as the code has it. Two runs on the same raw input may differ in the clock and in
  what the exchange answers to a look-up. Outside the placement path with an unknown result
  (the tag is not \<^verbatim>\<open>order\<close>, or the error message does not contain \<^verbatim>\<open>ETIMEDOUT\<close>) both
  runs of \<^verbatim>\<open>processResponse\<close> hand \<^verbatim>\<open>next\<close> the same; both runs of \<^verbatim>\<open>checkOrder\<close> deliver
  the same; and both runs of \<^verbatim>\<open>getOrder\<close> deliver the same when every fill of the response
  carries a date.
\<close>

theorem classification_deterministic:
  "(fn \<noteq> JStr ''order''
      \<or> (\<forall>x d. raw_error err data = (Some x, d) \<longrightarrow> \<not> sublist ''ETIMEDOUT'' (message x))
    \<longrightarrow> processResponse e1 fn err data = processResponse e2 fn err data)
   \<and> checkOrder e1 ident err data = checkOrder e2 ident err data
   \<and> ((\<forall>trade \<in> set (elements data). field trade ''date'' \<noteq> JUndefined)
      \<longrightarrow> getOrder e1 err data = getOrder e2 err data)"
proof (intro conjI impI)
  assume "fn \<noteq> JStr ''order''
      \<or> (\<forall>x d. raw_error err data = (Some x, d) \<longrightarrow> \<not> sublist ''ETIMEDOUT'' (message x))"
  then have "\<forall>y. processResponse_sync fn err data \<noteq> FindLastTrade y"
    using processResponse_sync_not_order processResponse_sync_not_timeout by blast
  then show "processResponse e1 fn err data = processResponse e2 fn err data"
    by (rule processResponse_env)
next
  have "processResponse e1 JUndefined err data = processResponse e2 JUndefined err data"
    using processResponse_env processResponse_sync_not_order [of JUndefined] by simp
  then show "checkOrder e1 ident err data = checkOrder e2 ident err data"
    by (simp add: checkOrder_def)
next
  assume dated: "\<forall>trade \<in> set (elements data). field trade ''date'' \<noteq> JUndefined"
  have same: "processResponse e1 (JStr ''getOrder'') err data
      = processResponse e2 (JStr ''getOrder'') err data"
    using processResponse_env processResponse_sync_not_order [of "JStr ''getOrder''"] by simp
  obtain a d where p: "processResponse e2 (JStr ''getOrder'') err data = [Call (a, d)]"
    using processResponse_once [of "JStr ''getOrder''" e2 err data] by auto
  have "getOrder_handle (now e1) a d = getOrder_handle (now e2) a d"
  proof (cases a)
    case None
    with p have "truthy (field d ''unfilled'')
        \<or> (\<forall>trade \<in> set (elements d). field trade ''date'' \<noteq> JUndefined)"
      using getOrder_elements dated by blast
    then show ?thesis by (rule getOrder_handle_clock)
  next
    case (Some x)
    then show ?thesis by (simp add: getOrder_handle_def)
  qed
  with same p show "getOrder e1 err data = getOrder e2 err data"
    by (simp add: getOrder_def settle_def)
qed

text \<open>
  Witness for C9: a rejected placement, a timeout on the \<^verbatim>\<open>getOrder\<close> path and a dated
  fill, each at two clocks and two states of the exchange.
\<close>

theorem classification_deterministic_witness:
  "processResponse (quiet 60000 (JArr [])) (JStr ''order'') (JStr ''Not enough BTC.'')
      JUndefined
     = processResponse (quiet 600000 (JArr [JObj [(''date'', JNum (Fin 0))]])) (JStr ''order'')
         (JStr ''Not enough BTC.'') JUndefined
   \<and> processResponse (quiet 60000 (JArr [])) (JStr ''getOrder'') (JStr ''ETIMEDOUT'')
      JUndefined
     = processResponse (quiet 600000 (JArr [JObj [(''date'', JNum (Fin 0))]]))
         (JStr ''getOrder'') (JStr ''ETIMEDOUT'') JUndefined
   \<and> getOrder (quiet 60000 (JArr [])) JNull
        (JArr [JObj [(''rate'', JStr ''10''), (''amount'', JStr ''1''),
                     (''date'', JStr ''2018-03-01 10:00:00'')]])
     = getOrder (quiet 600000 (JArr [])) JNull
        (JArr [JObj [(''rate'', JStr ''10''), (''amount'', JStr ''1''),
                     (''date'', JStr ''2018-03-01 10:00:00'')]])"
proof -
  have 1: "raw_error (JStr ''Not enough BTC.'') JUndefined
      = (Some \<lparr>message = ''Not enough BTC.'', notFatal = False\<rparr>, JUndefined)"
    by (simp add: raw_error_def new_Error_def)
  have 2: "\<forall>x d. raw_error (JStr ''Not enough BTC.'') JUndefined = (Some x, d)
             \<longrightarrow> \<not> sublist ''ETIMEDOUT'' (message x)"
    by (simp add: 1 sublist_code prefix_code)
  show ?thesis
    using classification_deterministic [where fn = "JStr ''order''"
        and err = "JStr ''Not enough BTC.''" and data = JUndefined
        and ?e1.0 = "quiet 60000 (JArr [])"
        and ?e2.0 = "quiet 600000 (JArr [JObj [(''date'', JNum (Fin 0))]])"]
      classification_deterministic [where fn = "JStr ''getOrder''"
        and err = "JStr ''ETIMEDOUT''" and data = JUndefined
        and ?e1.0 = "quiet 60000 (JArr [])"
        and ?e2.0 = "quiet 600000 (JArr [JObj [(''date'', JNum (Fin 0))]])"]
      classification_deterministic [where err = JNull
        and data = "JArr [JObj [(''rate'', JStr ''10''), (''amount'', JStr ''1''),
                                (''date'', JStr ''2018-03-01 10:00:00'')]]"
        and ?e1.0 = "quiet 60000 (JArr [])" and ?e2.0 = "quiet 600000 (JArr [])"]
      2
    by simp
qed

lemma fl_120000: "fl (120000) = Fin (120000)"
  by (rule fl_eqI [where e = 16 and m = 8246337208320000]) (simp_all add: pow2_def)

lemma fl_60000: "fl (60000) = Fin (60000)"
  by (rule fl_eqI [where e = 15 and m = 8246337208320000]) (simp_all add: pow2_def)

lemma fl_480000: "fl (480000) = Fin (480000)"
  by (rule fl_eqI [where e = 18 and m = 8246337208320000]) (simp_all add: pow2_def)

text \<open>
  C9 as stated fails on the placement path: the same raw input (\<^verbatim>\<open>ETIMEDOUT\<close>, no body) and
  the same answer of the exchange to the look-up (one open order, dated 0) give a success
  one minute after that date and the original error ten minutes after it.
\<close>

theorem placement_outcome_clock_counterexample:
  "processResponse
      (quiet 60000 (JArr [JObj [(''orderNumber'', JStr ''7''), (''date'', JNum (Fin 0))]]))
      (JStr ''order'') (JStr ''ETIMEDOUT'') JUndefined
   \<noteq> processResponse
      (quiet 600000 (JArr [JObj [(''orderNumber'', JStr ''7''), (''date'', JNum (Fin 0))]]))
      (JStr ''order'') (JStr ''ETIMEDOUT'') JUndefined"
proof -
  let ?o = "JObj [(''orderNumber'', JStr ''7''), (''date'', JNum (Fin 0))]"
  have 1: "processResponse (quiet 60000 (JArr [?o])) (JStr ''order'') (JStr ''ETIMEDOUT'')
             JUndefined = [Call (None, ?o)]"
    using buy_timeout_open_orders [of "[?o]" "quiet 60000 (JArr [?o])"]
    by (simp add: quiet_def js_sub_def fl_neg fl_120000 fl_60000 fl_480000)
  have 2: "processResponse (quiet 600000 (JArr [?o])) (JStr ''order'') (JStr ''ETIMEDOUT'')
             JUndefined
           = [Call (Some \<lparr>message = ''ETIMEDOUT'', notFatal = True\<rparr>, JUndefined)]"
    using buy_timeout_open_orders [of "[?o]" "quiet 600000 (JArr [?o])"]
    by (simp add: quiet_def js_sub_def fl_neg fl_120000 fl_60000 fl_480000)
  show ?thesis by (simp add: 1 2)
qed

section \<open>The portfolio (C10)\<close>

text \<open>
  C10. For every balance response that carries no error, \<^verbatim>\<open>getPortfolio\<close> of the Poloniex
  wrapper delivers exactly two entries, the asset first and the currency second; when
  \<^verbatim>\<open>parseFloat\<close> of either balance is \<^verbatim>\<open>NaN\<close> (the key is missing, or its value is not
  numeric) both amounts are 0, and otherwise they are the two parsed balances.
\<close>

theorem getPortfolio_two_entries:
  assumes "raw_error err data = (None, d)"
  shows "getPortfolio e asset currency err data =
     [Call (Success
        (if js_isNaN (parseFloat (field data asset))
            \<or> js_isNaN (parseFloat (field data currency))
         then [(asset, Fin 0), (currency, Fin 0)]
         else [(asset, parseFloat (field data asset)),
               (currency, parseFloat (field data currency))]))]"
proof -
  have "truthy data" using raw_error_NoneD [OF assms] by blast
  then have "\<not> nullish data" by (auto simp: nullish_def)
  then show ?thesis
    using processResponse_plain_ok [OF assms]
    by (simp add: getPortfolio_def settle_def getPortfolio_handle_def Let_def)
qed

lemma fl_82779317_25000000: "fl (82779317 / 25000000) = Fin (7456098023903683 / 2251799813685248)"
  by (rule fl_eqI [where e = 1 and m = 7456098023903683]) (simp_all add: pow2_def)

lemma fl_29549289_50000000: "fl (29549289 / 50000000) = Fin (1330781669294631 / 2251799813685248)"
  by (rule fl_eqI [where e = "- 1" and m = 5323126677178524]) (simp_all add: pow2_def)

text \<open>
  Witness for C10: balances of BTC and LTC, asked for the pair ETH/BTC (the asset is
  missing, both amounts are 0) and for the pair LTC/BTC (the amounts are the doubles nearest
  to the two decimal numbers).
\<close>

theorem getPortfolio_two_entries_witness:
  "getPortfolio (quiet 0 (JArr [])) ''ETH'' ''BTC'' JNull
      (JObj [(''BTC'', JStr ''0.59098578''), (''LTC'', JStr ''3.31117268'')])
     = [Call (Success [(''ETH'', Fin 0), (''BTC'', Fin 0)])]
   \<and> getPortfolio (quiet 0 (JArr [])) ''LTC'' ''BTC'' JNull
      (JObj [(''BTC'', JStr ''0.59098578''), (''LTC'', JStr ''3.31117268'')])
     = [Call (Success [(''LTC'', fl (331117268 / 100000000)),
                       (''BTC'', fl (59098578 / 100000000))])]
   \<and> fl (331117268 / 100000000) = Fin (7456098023903683 / 2251799813685248)
   \<and> fl (59098578 / 100000000) = Fin (1330781669294631 / 2251799813685248)"
proof -
  let ?d = "JObj [(''BTC'', JStr ''0.59098578''), (''LTC'', JStr ''3.31117268'')]"
  have 1: "raw_error JNull ?d = (None, ?d)"
    by (simp add: raw_error_def includes_js_def)
  have 2: "parseFloat (field ?d ''ETH'') = NaN"
    by (simp add: parseFloat_def parseFloat_string_def is_space_def scan_decimal_def
          scan_unsigned_def is_digit_def Let_def)
  have 3: "parseFloat (field ?d ''BTC'') = fl (59098578 / 100000000)"
    by (simp add: parseFloat_def parseFloat_string_def is_space_def scan_decimal_def
          scan_unsigned_def scan_exponent_def is_digit_def digits_val_def digit_val_def Let_def)
  have 4: "parseFloat (field ?d ''LTC'') = fl (331117268 / 100000000)"
    by (simp add: parseFloat_def parseFloat_string_def is_space_def scan_decimal_def
          scan_unsigned_def scan_exponent_def is_digit_def digits_val_def digit_val_def Let_def)
  show ?thesis
    using getPortfolio_two_entries [OF 1, of "quiet 0 (JArr [])" "''ETH''" "''BTC''"]
      getPortfolio_two_entries [OF 1, of "quiet 0 (JArr [])" "''LTC''" "''BTC''"]
    by (simp only: 2 3 4 js_isNaN_def) (simp add: fl_82779317_25000000 fl_29549289_50000000)
qed

end
